theory Spec2Isabelle
  imports Complex_Main "HOL-Library.Char_ord" "HOL-Library.List_Lexorder"
begin

section \<open>Python values and the built-in conversions the script relies on\<close>

text \<open>
  The script \<^verbatim>\<open>jobTreeRun.py\<close> is Python 2. Byte strings are \<^typ>\<open>string\<close>, Python's
  unbounded integers are \<^typ>\<open>int\<close>, and every exception the modelled code can raise is a
  value of \<open>error\<close>. A \<open>ValueError\<close> carries the string that could not be converted, a
  \<open>KeyError\<close> the missing key, a \<open>RuntimeError\<close> its message, an \<open>OSError\<close> or \<open>IOError\<close>
  the path. The constructors of the
  batch systems live in other modules of the package; whatever they raise is carried by
  \<open>BackendError\<close>.

  \<open>NotModelled\<close> is not an exception of Python. It is the result of reading or writing
  an XML document of a shape that this theory does not describe (section \<open>The
  configuration file\<close> says which): the theory makes no statement about such a run, and
  no theorem below is about one.
\<close>

datatype error =
    KeyError string
  | ValueError string
  | RuntimeError string
  | OverflowError
  | UnicodeDecodeError
  | AssertionError
  | OSError string
  | IOError string
  | ParseError
  | BackendError string
  | NotModelled

text \<open>
  A Python float is an IEEE binary64 value: a signed finite magnitude (the sign is kept
  apart, so that \<open>-0.0\<close> is a value), a signed infinity, or a NaN.
\<close>

datatype pyfloat = Finite bool rat | Inf bool | NaN

datatype pynum = PInt int | PFloat pyfloat

fun signed :: "bool \<Rightarrow> rat \<Rightarrow> rat" where
  "signed neg m = (if neg then - m else m)"

text \<open>\<open>a <= b\<close> on floats: every comparison with a NaN is false.\<close>

fun float_le :: "pyfloat \<Rightarrow> pyfloat \<Rightarrow> bool" where
  "float_le NaN b = False"
| "float_le (Finite s m) NaN = False"
| "float_le (Inf s) NaN = False"
| "float_le (Inf neg) (Inf neg') = (neg \<or> \<not> neg')"
| "float_le (Inf neg) (Finite s m) = neg"
| "float_le (Finite s m) (Inf neg) = (\<not> neg)"
| "float_le (Finite s m) (Finite s' m') = (signed s m \<le> signed s' m')"

text \<open>
  Python compares an integer with a float by value, without rounding the integer, so an
  integer takes part in a comparison as the rational it is.
\<close>

fun as_float :: "pynum \<Rightarrow> pyfloat" where
  "as_float (PInt i) = Finite (i < 0) (of_int \<bar>i\<bar>)"
| "as_float (PFloat f) = f"

definition num_le :: "pynum \<Rightarrow> pynum \<Rightarrow> bool" where
  "num_le a b = float_le (as_float a) (as_float b)"

subsection \<open>Whitespace, \<open>str.split()\<close> and \<open>str.strip()\<close>\<close>

definition isspace :: "char \<Rightarrow> bool" where
  "isspace c = (c = CHR '' '' \<or> c = CHR 0x09 \<or> c = CHR 0x0A \<or> c = CHR 0x0B
                \<or> c = CHR 0x0C \<or> c = CHR 0x0D)"

fun split_from :: "string \<Rightarrow> string \<Rightarrow> string list" where
  "split_from w [] = (if w = [] then [] else [w])"
| "split_from w (c # cs) =
     (if isspace c then (if w = [] then split_from [] cs else w # split_from [] cs)
      else split_from (w @ [c]) cs)"

text \<open>\<open>s.split()\<close>: the maximal runs of characters that are not whitespace.\<close>

definition py_split :: "string \<Rightarrow> string list" where
  "py_split s = split_from [] s"

definition py_strip :: "string \<Rightarrow> string" where
  "py_strip s = rev (dropWhile isspace (rev (dropWhile isspace s)))"

subsection \<open>\<open>int(s)\<close> and \<open>str(n)\<close>\<close>

definition isdigit :: "char \<Rightarrow> bool" where
  "isdigit c = (48 \<le> (of_char c :: nat) \<and> (of_char c :: nat) \<le> 57)"

definition digit_val :: "char \<Rightarrow> nat" where
  "digit_val c = of_char c - 48"

definition nat_of_digits :: "string \<Rightarrow> nat" where
  "nat_of_digits ds = foldl (\<lambda>n c. 10 * n + digit_val c) 0 ds"

text \<open>An optional sign followed by one or more decimal digits, and nothing else.\<close>

definition signed_digits :: "string \<Rightarrow> int option" where
  "signed_digits t =
     (let (neg, ds) =
            (case t of
               [] \<Rightarrow> (False, [])
             | c # r \<Rightarrow> if c = CHR ''-'' then (True, r)
                        else if c = CHR ''+'' then (False, r) else (False, t))
      in if ds \<noteq> [] \<and> list_all isdigit ds
         then Some (if neg then - int (nat_of_digits ds) else int (nat_of_digits ds))
         else None)"

text \<open>
  \<open>int(s)\<close> for a string: surrounding whitespace is dropped, then an optional sign and
  decimal digits are read; anything else raises \<open>ValueError\<close>.
\<close>

definition py_int :: "string \<Rightarrow> error + int" where
  "py_int s =
     (case signed_digits (py_strip s) of
        None \<Rightarrow> Inl (ValueError s)
      | Some i \<Rightarrow> Inr i)"

definition digit_char :: "nat \<Rightarrow> char" where
  "digit_char d = char_of (48 + d)"

fun digits_of_nat :: "nat \<Rightarrow> string" where
  "digits_of_nat n =
     (if n < 10 then [digit_char n] else digits_of_nat (n div 10) @ [digit_char (n mod 10)])"

declare digits_of_nat.simps [simp del]

text \<open>\<open>str(n)\<close> for an integer.\<close>

definition py_str :: "int \<Rightarrow> string" where
  "py_str i = (if i < 0 then CHR ''-'' # digits_of_nat (nat (- i)) else digits_of_nat (nat i))"

subsection \<open>\<open>float(s)\<close>\<close>

definition lower :: "char \<Rightarrow> char" where
  "lower c = (if 65 \<le> (of_char c :: nat) \<and> (of_char c :: nat) \<le> 90
              then char_of ((of_char c :: nat) + 32) else c)"

text \<open>
  A decimal literal \<open>digits [. digits] [(e|E) [sign] digits]\<close> with at least one digit
  before the exponent, read as a mantissa \<open>m\<close> and a decimal exponent \<open>k\<close>: the literal
  denotes \<open>m * 10 ^ k\<close>.
\<close>

definition parse_decimal :: "string \<Rightarrow> (nat \<times> int) option" where
  "parse_decimal t =
     (let ip = takeWhile isdigit t;
          r1 = dropWhile isdigit t;
          (fp, r2) =
            (case r1 of
               [] \<Rightarrow> ([], [])
             | c # r \<Rightarrow> if c = CHR ''.'' then (takeWhile isdigit r, dropWhile isdigit r)
                        else ([], r1))
      in if ip = [] \<and> fp = [] then None
         else (case r2 of
                 [] \<Rightarrow> Some (nat_of_digits (ip @ fp), - int (length fp))
               | c # r \<Rightarrow>
                   if c = CHR ''e'' \<or> c = CHR ''E''
                   then (case signed_digits r of
                           None \<Rightarrow> None
                         | Some x \<Rightarrow> Some (nat_of_digits (ip @ fp), x - int (length fp)))
                   else None))"

text \<open>The number of binary digits of a natural number.\<close>

fun bitlen :: "nat \<Rightarrow> nat" where
  "bitlen n = (if n = 0 then 0 else Suc (bitlen (n div 2)))"

declare bitlen.simps [simp del]

text \<open>\<open>a / b\<close> rounded to the nearest natural number, a tie going to the even one.\<close>

definition round_half_even :: "nat \<Rightarrow> nat \<Rightarrow> nat" where
  "round_half_even a b =
     (let q = a div b; r = a mod b
      in if 2 * r < b then q else if b < 2 * r then q + 1
         else if even q then q else q + 1)"

text \<open>
  The binary64 value nearest to \<open>n / d\<close> (for \<open>d > 0\<close>), or \<open>None\<close> when the rounded
  value is beyond the largest finite double. With \<open>e\<close> the binary exponent of \<open>n / d\<close>, the
  quotient is rounded to a multiple of \<open>2 ^ p\<close>, where \<open>p = max (e - 52) (-1074)\<close> leaves
  53 significant bits to a normal number and the fixed spacing \<open>2 ^ -1074\<close> to a subnormal.
\<close>

definition to_binary64 :: "nat \<Rightarrow> nat \<Rightarrow> rat option" where
  "to_binary64 n d =
     (if n = 0 then Some 0
      else
        let e0 = int (bitlen n) - int (bitlen d);
            e = (if (if 0 \<le> e0 then d * 2 ^ nat e0 \<le> n else d \<le> n * 2 ^ nat (- e0))
                 then e0 else e0 - 1);
            p = max (e - 52) (- 1074)
        in if 0 \<le> p
           then (let m = round_half_even n (d * 2 ^ nat p)
                 in if 2 ^ 1024 \<le> m * 2 ^ nat p then None else Some (of_nat (m * 2 ^ nat p)))
           else Some (of_nat (round_half_even (n * 2 ^ nat (- p)) d) / of_nat (2 ^ nat (- p))))"

text \<open>
  \<open>float(s)\<close> for a string: surrounding whitespace is dropped and an optional sign is read;
  then \<open>inf\<close>, \<open>infinity\<close> and \<open>nan\<close> are accepted in any case, and a decimal literal is
  rounded to the nearest double (to an infinity when it is too large). Anything else raises
  \<open>ValueError\<close>.
\<close>

definition py_float :: "string \<Rightarrow> error + pyfloat" where
  "py_float s =
     (let t = py_strip s;
          (neg, u) =
            (case t of
               [] \<Rightarrow> (False, [])
             | c # r \<Rightarrow> if c = CHR ''-'' then (True, r)
                        else if c = CHR ''+'' then (False, r) else (False, t));
          l = map lower u
      in if l = ''inf'' \<or> l = ''infinity'' then Inr (Inf neg)
         else if l = ''nan'' then Inr NaN
         else (case parse_decimal u of
                 None \<Rightarrow> Inl (ValueError s)
               | Some (m, k) \<Rightarrow>
                   (case (if 0 \<le> k then to_binary64 (m * 10 ^ nat k) 1
                          else to_binary64 m (10 ^ nat (- k))) of
                      None \<Rightarrow> Inr (Inf neg)
                    | Some q \<Rightarrow> Inr (Finite neg q))))"

text \<open>
  \<open>float(n)\<close> for an integer: the nearest double, or \<open>OverflowError\<close> when there is none.
\<close>

definition float_of_int :: "int \<Rightarrow> error + pyfloat" where
  "float_of_int i =
     (case to_binary64 (nat \<bar>i\<bar>) 1 of
        None \<Rightarrow> Inl OverflowError
      | Some q \<Rightarrow> Inr (Finite (i < 0) q))"

subsection \<open>\<open>str(x)\<close> for a float\<close>

text \<open>The decimal exponent \<open>x\<close> of \<open>n / d\<close>: \<open>10 ^ x \<le> n / d < 10 ^ (x + 1)\<close>, for positive \<open>n\<close>, \<open>d\<close>.\<close>

definition decimal_exponent :: "nat \<Rightarrow> nat \<Rightarrow> int" where
  "decimal_exponent n d =
     (let x0 = int (length (digits_of_nat n)) - int (length (digits_of_nat d))
      in if (if 0 \<le> x0 then d * 10 ^ nat x0 \<le> n else d \<le> n * 10 ^ nat (- x0))
         then x0 else x0 - 1)"

text \<open>
  \<open>n / d\<close> rounded to twelve significant decimal digits: the digits as a number between
  \<open>10 ^ 11\<close> and \<open>10 ^ 12\<close>, and the decimal exponent of the rounded value.
\<close>

definition significant12 :: "nat \<Rightarrow> nat \<Rightarrow> nat \<times> int" where
  "significant12 n d =
     (let x = decimal_exponent n d;
          s = x - 11;
          m = (if 0 \<le> s then round_half_even n (d * 10 ^ nat s)
               else round_half_even (n * 10 ^ nat (- s)) d)
      in if m = 10 ^ 12 then (10 ^ 11, x + 1) else (m, x))"

definition strip_zeros :: "string \<Rightarrow> string" where
  "strip_zeros ds = rev (dropWhile (\<lambda>c. c = CHR ''0'') (rev ds))"

text \<open>
  The format \<^verbatim>\<open>%.12g\<close> of a positive quotient, with \<open>.0\<close> added when the result would
  look like an integer: exponent notation when the decimal exponent is below \<open>-4\<close> or at
  least 12, positional notation otherwise, trailing zeros dropped.
\<close>

definition format_g12 :: "nat \<Rightarrow> nat \<Rightarrow> string" where
  "format_g12 n d =
     (let (m, x) = significant12 n d;
          ds = digits_of_nat m;
          sig = strip_zeros ds
      in if x < - 4 \<or> 12 \<le> x
         then [hd sig] @ (if tl sig = [] then [] else CHR ''.'' # tl sig) @ ''e''
              @ (if x < 0 then ''-'' else ''+'')
              @ (if \<bar>x\<bar> < 10 then ''0'' else []) @ digits_of_nat (nat \<bar>x\<bar>)
         else if 0 \<le> x
         then take (nat x + 1) ds @ ''.''
              @ (if strip_zeros (drop (nat x + 1) ds) = [] then ''0''
                 else strip_zeros (drop (nat x + 1) ds))
         else ''0.'' @ replicate (nat (- x - 1)) CHR ''0'' @ sig)"

text \<open>\<open>str(x)\<close> for a float, as Python 2 prints it.\<close>

definition py_str_float :: "pyfloat \<Rightarrow> string" where
  "py_str_float f =
     (case f of
        NaN \<Rightarrow> ''nan''
      | Inf neg \<Rightarrow> (if neg then ''-inf'' else ''inf'')
      | Finite neg q \<Rightarrow>
          (if neg then ''-'' else [])
          @ (if q = 0 then ''0.0''
             else format_g12 (nat (fst (quotient_of q))) (nat (snd (quotient_of q)))))"

subsection \<open>Option values\<close>

text \<open>
  The value of an option: the string given on the command line, or the default of the
  script, which is a number for most options. \<open>int(v)\<close> and \<open>float(v)\<close> convert both.
\<close>

datatype pyval = VStr string | VNum pynum

definition int_of_float :: "pyfloat \<Rightarrow> error + int" where
  "int_of_float f =
     (case f of
        NaN \<Rightarrow> Inl (ValueError ''nan'')
      | Inf neg \<Rightarrow> Inl OverflowError
      | Finite neg q \<Rightarrow> Inr (if neg then - \<lfloor>q\<rfloor> else \<lfloor>q\<rfloor>))"

definition py_int_of :: "pyval \<Rightarrow> error + int" where
  "py_int_of v =
     (case v of
        VStr s \<Rightarrow> py_int s
      | VNum (PInt i) \<Rightarrow> Inr i
      | VNum (PFloat f) \<Rightarrow> int_of_float f)"

definition py_float_of :: "pyval \<Rightarrow> error + pyfloat" where
  "py_float_of v =
     (case v of
        VStr s \<Rightarrow> py_float s
      | VNum (PInt i) \<Rightarrow> float_of_int i
      | VNum (PFloat f) \<Rightarrow> Inr f)"

text \<open>\<open>a == b\<close> on numbers.\<close>

definition num_eq :: "pynum \<Rightarrow> pynum \<Rightarrow> bool" where
  "num_eq a b = (num_le a b \<and> num_le b a)"

section \<open>The configuration record and the batch systems\<close>

text \<open>
  The configuration is the attribute dictionary of an XML element: a map from attribute
  names to strings. The code mutates it in place; the model passes it through every
  function and returns it, also when the function raises, so that what an exception leaves
  behind is visible.
\<close>

type_synonym config = "string \<rightharpoonup> string"

text \<open>
  The classes a single name constructs. \<open>SingleMachineBatchSystem_badWorker\<close> is
  \<^verbatim>\<open>SingleMachineBatchSystem(config, workerFn=badWorker)\<close>.
\<close>

datatype backend =
    ParasolBatchSystem
  | SingleMachineBatchSystem
  | GridengineBatchSystem
  | TorqueBatchSystem
  | DrmaaBatchSystem
  | DrmaaTorqueBatchSystem
  | SingleMachineBatchSystem_badWorker

text \<open>
  What \<open>loadTheBatchSystem\<close> returns: a backend of its own, or
  \<^verbatim>\<open>CombinedBatchSystem(config, batchSystem1, batchSystem2, predicate)\<close>, whose last argument
  is the closure \<^verbatim>\<open>lambda command, memory, cpu : memory <= maxMemoryForBatchSystem1\<close>.
\<close>

datatype 'h batchSystem =
    Single 'h
  | CombinedBatchSystem (backendA: 'h) (backendB: 'h)
      (predicate: "string \<Rightarrow> pynum \<Rightarrow> pynum \<Rightarrow> bool")

text \<open>
  \<open>batchSystemConstructionFn\<close>, the function nested in \<open>loadTheBatchSystem\<close>. The
  constructors of the backends are defined in other modules: \<open>mk b config\<close> stands for the
  call of backend \<open>b\<close>'s constructor on the configuration, which reads the configuration and
  returns a handle or raises. The result is \<open>None\<close> when no name matches, as in the source.
\<close>

definition batchSystemConstructionFn ::
  "(backend \<Rightarrow> config \<Rightarrow> error + 'h) \<Rightarrow> string \<Rightarrow> config \<Rightarrow> config \<times> (error + 'h option)" where
  "batchSystemConstructionFn mk batchSystemString config =
     (if batchSystemString = ''parasol''
      then (config, map_sum id Some (mk ParasolBatchSystem config))
      else if batchSystemString = ''single_machine'' \<or> batchSystemString = ''singleMachine''
      then (config, map_sum id Some (mk SingleMachineBatchSystem config))
      else if batchSystemString = ''gridengine'' \<or> batchSystemString = ''gridEngine''
      then (config, map_sum id Some (mk GridengineBatchSystem config))
      else if batchSystemString = ''torque'' \<or> batchSystemString = ''Torque''
      then (config, map_sum id Some (mk TorqueBatchSystem config))
      else if batchSystemString = ''drmaa'' \<or> batchSystemString = ''Drmaa''
      then (config, map_sum id Some (mk DrmaaBatchSystem config))
      else if batchSystemString = ''drmaaTorque'' \<or> batchSystemString = ''DrmaaTorque''
      then (config, map_sum id Some (mk DrmaaTorqueBatchSystem config))
      else if batchSystemString = ''acid_test'' \<or> batchSystemString = ''acidTest''
      then (case mk SingleMachineBatchSystem_badWorker config of
              Inl e \<Rightarrow> (config, Inl e)
            | Inr h \<Rightarrow> (config(''try_count'' \<mapsto> py_str 32), Inr (Some h)))
      else (config, Inr None))"

text \<open>
  \<open>loadTheBatchSystem\<close>. \<open>maxint\<close> is \<^verbatim>\<open>sys.maxint\<close>, a constant of the platform. The
  statements of the source are kept in their order: the two conversions, the read of
  \<open>max_jobs\<close>, its overwrite, the construction of the first backend, the write-back, the
  construction of the second backend, and the test that both exist.
\<close>

definition loadTheBatchSystem ::
  "(backend \<Rightarrow> config \<Rightarrow> error + 'h) \<Rightarrow> int \<Rightarrow> config \<Rightarrow> config \<times> (error + 'h batchSystem)" where
  "loadTheBatchSystem mk maxint config =
     (case config ''batch_system'' of
        None \<Rightarrow> (config, Inl (KeyError ''batch_system''))
      | Some batchSystemString \<Rightarrow>
     (case batchSystemConstructionFn mk batchSystemString config of
        (config1, Inl e) \<Rightarrow> (config1, Inl e)
      | (config1, Inr (Some b)) \<Rightarrow> (config1, Inr (Single b))
      | (config1, Inr None) \<Rightarrow>
     (let batchSystems = py_split batchSystemString in
      if length batchSystems \<noteq> 3 \<and> length batchSystems \<noteq> 4
      then (config1, Inl (RuntimeError (''Unrecognised batch system: '' @ batchSystemString)))
      else
     (case py_float (batchSystems ! 2) of
        Inl e \<Rightarrow> (config1, Inl e)
      | Inr maxMemoryForBatchSystem1 \<Rightarrow>
     (case (if length batchSystems = 4 then py_int (batchSystems ! 3) else Inr maxint) of
        Inl e \<Rightarrow> (config1, Inl e)
      | Inr maxJobs \<Rightarrow>
     (case config1 ''max_jobs'' of
        None \<Rightarrow> (config1, Inl (KeyError ''max_jobs''))
      | Some oldMaxJobs \<Rightarrow>
     (case batchSystemConstructionFn mk (batchSystems ! 0)
             (config1(''max_jobs'' \<mapsto> py_str maxJobs)) of
        (config2, Inl e) \<Rightarrow> (config2, Inl e)
      | (config2, Inr batchSystem1) \<Rightarrow>
     (case batchSystemConstructionFn mk (batchSystems ! 1)
             (config2(''max_jobs'' \<mapsto> oldMaxJobs)) of
        (config3, Inl e) \<Rightarrow> (config3, Inl e)
      | (config3, Inr batchSystem2) \<Rightarrow>
     (case (batchSystem1, batchSystem2) of
        (Some b1, Some b2) \<Rightarrow>
          (config3, Inr (CombinedBatchSystem b1 b2
             (\<lambda>command memory cpu. num_le memory (PFloat maxMemoryForBatchSystem1))))
      | _ \<Rightarrow>
          (config3, Inl (RuntimeError (''Unrecognised batch system: '' @ batchSystemString)))
     )))))))))"

section \<open>The configuration file\<close>

text \<open>
  \<open>writeConfig\<close> hands the element to \<^verbatim>\<open>ElementTree.write\<close> and \<open>reloadJobTree\<close> reads it
  with \<^verbatim>\<open>ET.parse\<close>, both of \<^verbatim>\<open>xml.etree.cElementTree\<close> of Python 2.7: the writer is the one
  of \<^verbatim>\<open>ElementTree\<close>, the reader is the parser expat with namespaces.

  A configuration of this theory is the attribute dictionary of an element with the tag
  \<open>config\<close>, without text and without children, as \<open>createJobTree\<close> makes it. The file
  written for it is the single tag \<^verbatim>\<open><config k1="v1" k2="v2" />\<close>, with the attributes in the
  order of their names.

  \<open>escape_attrib\<close> is the library's \<^verbatim>\<open>_escape_attrib\<close>: it replaces \<open>&\<close>, \<open><\<close>, \<open>>\<close>, the
  double quote and the newline; every other character is written as it is.
\<close>

definition escape_char :: "char \<Rightarrow> string" where
  "escape_char c =
     (if c = CHR ''&'' then ''&amp;''
      else if c = CHR ''<'' then ''&lt;''
      else if c = CHR ''>'' then ''&gt;''
      else if c = CHR 0x22 then ''&quot;''
      else if c = CHR 0x0A then ''&#10;''
      else [c])"

definition escape_attrib :: "string \<Rightarrow> string" where
  "escape_attrib v = concat (map escape_char v)"

text \<open>
  The text is encoded as US-ASCII; a byte string with a byte above 127 cannot be, and the
  library raises \<open>UnicodeDecodeError\<close>.
\<close>

definition is_ascii :: "string \<Rightarrow> bool" where
  "is_ascii v = list_all (\<lambda>c. (of_char c :: nat) < 128) v"

text \<open>The attributes as the library writes them: sorted by name.\<close>

definition items :: "config \<Rightarrow> (string \<times> string) list" where
  "items config = map (\<lambda>k. (k, the (config k))) (sorted_list_of_set (dom config))"

text \<open>
  Writing the attributes one after the other, onto the text written so far. The first
  value that cannot be encoded stops the writing: the result is the text written up to
  there and the exception.
\<close>

fun write_attribs :: "string \<Rightarrow> (string \<times> string) list \<Rightarrow> string \<times> error option" where
  "write_attribs out [] = (out @ '' />'', None)"
| "write_attribs out ((k, v) # kvs) =
     (if is_ascii v
      then write_attribs (out @ '' '' @ k @ [CHR ''='', CHR 0x22] @ escape_attrib v @ [CHR 0x22]) kvs
      else (out, Some UnicodeDecodeError))"

text \<open>
  \<^verbatim>\<open>ElementTree(config).write(fileHandle)\<close>: the names are encoded first, before anything
  is written, then the tag is written with its attributes. A name that starts with a brace
  is a name in a namespace, \<open>{uri}name\<close>, for which the library writes a prefix and a
  declaration: that is not modelled.
\<close>

definition xml_write :: "config \<Rightarrow> string \<times> error option" where
  "xml_write config =
     (if list_ex (\<lambda>(k, v). take 1 k = ''{'') (items config) then ([], Some NotModelled)
      else if \<not> list_all (\<lambda>(k, v). is_ascii k) (items config) then ([], Some UnicodeDecodeError)
      else write_attribs ''<config'' (items config))"

text \<open>
  Reading. White space is a space, a tab, a newline or a carriage return. A character of
  an XML document is a tab, a newline, a carriage return or a character from the space on.
  The names that the model reads start with an ASCII letter or an underscore and go on with
  ASCII letters, digits, underscores, hyphens and dots; names with a colon belong to
  namespaces and names with other characters need an encoding, and neither is modelled.
\<close>

definition xml_space :: "char \<Rightarrow> bool" where
  "xml_space c = (c = CHR '' '' \<or> c = CHR 0x09 \<or> c = CHR 0x0A \<or> c = CHR 0x0D)"

definition xml_char :: "char \<Rightarrow> bool" where
  "xml_char c = (c = CHR 0x09 \<or> c = CHR 0x0A \<or> c = CHR 0x0D \<or> 32 \<le> (of_char c :: nat))"

definition name_start :: "char \<Rightarrow> bool" where
  "name_start c =
     ((65 \<le> (of_char c :: nat) \<and> (of_char c :: nat) \<le> 90)
      \<or> (97 \<le> (of_char c :: nat) \<and> (of_char c :: nat) \<le> 122) \<or> c = CHR ''_'')"

definition name_char :: "char \<Rightarrow> bool" where
  "name_char c = (name_start c \<or> isdigit c \<or> c = CHR ''-'' \<or> c = CHR ''.'')"

text \<open>
  The value of an attribute, from the text between its quotes. The five references that
  \<open>escape_attrib\<close> writes and \<open>&apos;\<close> are replaced; a literal tab, newline or carriage
  return becomes a space (the attribute-value normalisation of XML; a carriage return
  before a newline is dropped first). A \<open><\<close>, a reference to an entity that is not
  declared, an \<open>&\<close> that starts no reference, and a control character other than the three
  make the document ill-formed. Other character references and bytes above 127 (which
  give a \<^verbatim>\<open>unicode\<close> value, not a byte string) are not modelled.
\<close>

fun attrib_value :: "string \<Rightarrow> error + string" where
  "attrib_value [] = Inr []"
| "attrib_value (c # cs) =
     (if c = CHR ''&''
      then (if take 4 cs = ''amp;'' then map_sum id ((#) CHR ''&'') (attrib_value (drop 4 cs))
            else if take 3 cs = ''lt;'' then map_sum id ((#) CHR ''<'') (attrib_value (drop 3 cs))
            else if take 3 cs = ''gt;'' then map_sum id ((#) CHR ''>'') (attrib_value (drop 3 cs))
            else if take 5 cs = ''quot;''
            then map_sum id ((#) CHR 0x22) (attrib_value (drop 5 cs))
            else if take 5 cs = ''apos;''
            then map_sum id ((#) CHR 0x27) (attrib_value (drop 5 cs))
            else if take 4 cs = ''#10;''
            then map_sum id ((#) CHR 0x0A) (attrib_value (drop 4 cs))
            else if take 1 cs = ''#'' then Inl NotModelled
            else Inl ParseError)
      else if c = CHR ''<'' then Inl ParseError
      else if 128 \<le> (of_char c :: nat) then Inl NotModelled
      else if \<not> xml_char c then Inl ParseError
      else if c = CHR 0x0D \<and> take 1 cs = [CHR 0x0A] then attrib_value cs
      else if c = CHR 0x09 \<or> c = CHR 0x0A \<or> c = CHR 0x0D
      then map_sum id ((#) CHR '' '') (attrib_value cs)
      else map_sum id ((#) c) (attrib_value cs))"

text \<open>
  The attributes of a tag, from the text after its name: the result is the dictionary and
  the text from the \<open>/\<close> or \<open>>\<close> that ends the attributes. Each attribute is white space, a
  name, an equals sign with or without white space around it, and the value between two
  double quotes or two single quotes. A name that occurs twice makes the document
  ill-formed.
\<close>

function read_attribs :: "config \<Rightarrow> string \<Rightarrow> error + config \<times> string" where
  "read_attribs acc s =
     (let s1 = dropWhile xml_space s
      in if take 1 s1 = ''/'' \<or> take 1 s1 = ''>'' then Inr (acc, s1)
         else if s1 = s then Inl NotModelled
         else
           let k = takeWhile name_char s1;
               r1 = dropWhile xml_space (dropWhile name_char s1)
           in if k = [] \<or> \<not> name_start (hd k) \<or> take 1 r1 \<noteq> ''='' then Inl NotModelled
              else
                let r2 = dropWhile xml_space (tl r1)
                in if take 1 r2 \<noteq> [CHR 0x22] \<and> take 1 r2 \<noteq> [CHR 0x27] then Inl NotModelled
                   else
                     let raw = takeWhile (\<lambda>c. c \<noteq> hd r2) (tl r2);
                         r3 = dropWhile (\<lambda>c. c \<noteq> hd r2) (tl r2)
                     in if r3 = [] then Inl NotModelled
                        else (case attrib_value raw of
                                Inl e \<Rightarrow> Inl e
                              | Inr v \<Rightarrow>
                                  if acc k \<noteq> None then Inl ParseError
                                  else read_attribs (acc(k \<mapsto> v)) (tl r3)))"
  by pat_completeness auto
termination
proof (relation "measure (\<lambda>(acc, s). length s)")
  show "wf (measure (\<lambda>(acc, s). length s))"
    by simp
next
  fix acc :: config and s s1 k r1 r2 raw r3 v
  assume s1: "s1 = dropWhile xml_space s"
    and r1: "r1 = dropWhile xml_space (dropWhile name_char s1)"
    and eq: "\<not> (k = [] \<or> \<not> name_start (hd k) \<or> take 1 r1 \<noteq> ''='')"
    and r2: "r2 = dropWhile xml_space (tl r1)"
    and r3: "r3 = dropWhile (\<lambda>c. c \<noteq> hd r2) (tl r2)"
  have "length (tl r3) \<le> length r3"
    by simp
  also have "length r3 \<le> length (tl r2)"
    unfolding r3 by (rule length_dropWhile_le)
  also have "length (tl r2) \<le> length r2"
    by simp
  also have "length r2 \<le> length (tl r1)"
    unfolding r2 by (rule length_dropWhile_le)
  also have "length (tl r1) < length r1"
    using eq by (cases r1) auto
  also have "length r1 \<le> length (dropWhile name_char s1)"
    unfolding r1 by (rule length_dropWhile_le)
  also have "length (dropWhile name_char s1) \<le> length s1"
    by (rule length_dropWhile_le)
  also have "length s1 \<le> length s"
    unfolding s1 by (rule length_dropWhile_le)
  finally show "((acc(k \<mapsto> v), tl r3), (acc, s)) \<in> measure (\<lambda>(acc, s). length s)"
    by simp
qed

declare read_attribs.simps [simp del]

text \<open>
  The end of the element, from the text after its attributes: the element is closed in
  its own tag, or by an end tag next to the start tag (an element with text or children is
  not a configuration of this theory). The result is the text after the element.
\<close>

definition element_end :: "string \<Rightarrow> string option" where
  "element_end r =
     (if take 2 r = ''/>'' then Some (drop 2 r)
      else if take 9 r = ''></config'' \<and> take 1 (dropWhile xml_space (drop 9 r)) = ''>''
      then Some (tl (dropWhile xml_space (drop 9 r)))
      else None)"

text \<open>
  \<^verbatim>\<open>ET.parse(file).getroot().attrib\<close>. The model reads a document that is one element with
  the tag \<open>config\<close>, its attributes and nothing inside, with white space before and after
  it. A document without an element is ill-formed. The attribute \<open>xmlns\<close> is a namespace
  declaration, which the parser does not deliver as an attribute: with an empty value it
  declares that there is no namespace; with another value it puts the element into a
  namespace, which is not modelled. Documents with a declaration, a comment, a document
  type, another tag, or anything else that the functions above do not read, are not
  modelled.
\<close>

definition xml_parse :: "string \<Rightarrow> error + config" where
  "xml_parse s =
     (let s0 = dropWhile xml_space s
      in if s0 = [] then Inl ParseError
         else if hd s0 \<noteq> CHR ''<'' \<or> takeWhile name_char (tl s0) \<noteq> ''config''
         then Inl NotModelled
         else
           (case read_attribs Map.empty (dropWhile name_char (tl s0)) of
              Inl e \<Rightarrow> Inl e
            | Inr (attrib, r) \<Rightarrow>
                (case element_end r of
                   None \<Rightarrow> Inl NotModelled
                 | Some rest \<Rightarrow>
                     if \<not> list_all xml_space rest then Inl NotModelled
                     else (case attrib ''xmlns'' of
                             None \<Rightarrow> Inr attrib
                           | Some uri \<Rightarrow>
                               if uri = [] then Inr (attrib(''xmlns'' := None))
                               else Inl NotModelled))))"

text \<open>
  A configuration that can be written and read: finitely many attributes, every name an
  XML name without a colon other than \<open>xmlns\<close>, and every value made of ASCII characters
  that are XML characters. (Another control character makes the file ill-formed, and a
  byte above 127 cannot be written.) Reading normalises the values: a tab or a carriage
  return comes back as a space.
\<close>

definition writable_char :: "char \<Rightarrow> bool" where
  "writable_char c =
     (c = CHR 0x09 \<or> c = CHR 0x0A \<or> c = CHR 0x0D
      \<or> (32 \<le> (of_char c :: nat) \<and> (of_char c :: nat) < 128))"

definition normalise_char :: "char \<Rightarrow> char" where
  "normalise_char c = (if c = CHR 0x09 \<or> c = CHR 0x0D then CHR '' '' else c)"

definition xml_name :: "string \<Rightarrow> bool" where
  "xml_name k = (k \<noteq> [] \<and> name_start (hd k) \<and> list_all name_char k)"

definition attrib_name :: "string \<Rightarrow> bool" where
  "attrib_name k = (xml_name k \<and> k \<noteq> ''xmlns'')"

definition writable :: "config \<Rightarrow> bool" where
  "writable config =
     (finite (dom config)
      \<and> list_all (\<lambda>(k, v). attrib_name k \<and> list_all writable_char v) (items config))"

definition normalised :: "config \<Rightarrow> config" where
  "normalised config = (\<lambda>k. map_option (map normalise_char) (config k))"

definition read_back :: "(string \<times> string) list \<Rightarrow> (string \<times> string) list" where
  "read_back kvs = map (\<lambda>(k, v). (k, map normalise_char v)) kvs"

text \<open>
  A configuration that the file stores as it is: its values are made of printable ASCII
  characters, \<open>DEL\<close> and newlines.
\<close>

definition plain_char :: "char \<Rightarrow> bool" where
  "plain_char c = (c = CHR 0x0A \<or> (32 \<le> (of_char c :: nat) \<and> (of_char c :: nat) < 128))"

definition storable :: "config \<Rightarrow> bool" where
  "storable config =
     (finite (dom config)
      \<and> list_all (\<lambda>(k, v). attrib_name k \<and> list_all plain_char v) (items config))"

text \<open>The text of one attribute in the file.\<close>

definition attrib_text :: "string \<times> string \<Rightarrow> string" where
  "attrib_text kv = '' '' @ fst kv @ [CHR ''='', CHR 0x22] @ escape_attrib (snd kv) @ [CHR 0x22]"

section \<open>The workspace\<close>

text \<open>
  What the script reads and changes outside its own variables: the file system, the
  logging level of the process (\<^verbatim>\<open>getLogLevelString()\<close>), the environment of the process
  (\<^verbatim>\<open>os.environ\<close>), and the job records written by \<^verbatim>\<open>job.write()\<close>.

  The file system maps a path to a directory or a file. A file holds the bytes written to
  it, or the environment pickled into it. A path is looked up as it is written: two
  spellings of one path are two entries. Permissions are not modelled.
\<close>

datatype content = Bytes string | Pickled "(string \<times> string) list"

datatype node = Dir | File content

text \<open>
  Modelled from the spec: the class \<open>Job\<close> is not part of the script; by section 3 a job
  record holds a command, a memory request, a cpu request, a try count and its directory.
\<close>

datatype job =
  Job (jobCommand: string) (jobMemory: pynum) (jobCpu: pynum) (jobTryCount: int)
      (jobDir: string)

record world =
  files :: "string \<rightharpoonup> node"
  loggingLevel :: string
  environ :: "(string \<times> string) list"
  jobRecords :: "job list"

text \<open>
  What the script takes from its platform and from the other modules of the package:
  \<^verbatim>\<open>sys.maxint\<close>, \<^verbatim>\<open>os.path.abspath\<close>, the constructors of the backends, the method
  \<^verbatim>\<open>getRescueJobFrequency\<close> of a batch system, and the three functions of
  \<^verbatim>\<open>jobTree.src.master\<close> that name the artifacts of a job tree.
\<close>

record 'h platform =
  sys_maxint :: int
  abspath :: "string \<Rightarrow> string"
  construct :: "backend \<Rightarrow> config \<Rightarrow> error + 'h"
  getRescueJobFrequency :: "'h batchSystem \<Rightarrow> pynum"
  getConfigFileName :: "string \<Rightarrow> string"
  getEnvironmentFileName :: "string \<Rightarrow> string"
  getJobFileDirName :: "string \<Rightarrow> string"

text \<open>
  The options of a run, as the option parser delivers them. \<open>opt_logLevel\<close> stands for the
  logging options, which \<^verbatim>\<open>setLoggingFromOptions\<close> of the logging library applies: the
  level the run asks for, if it asks for one.
\<close>

record options =
  opt_logLevel :: "string option"
  opt_command :: "string option"
  opt_jobTree :: "string option"
  opt_batchSystem :: string
  opt_parasolCommand :: string
  opt_retryCount :: pyval
  opt_rescueJobsFrequency :: "pyval option"
  opt_maxJobDuration :: pyval
  opt_jobTime :: pyval
  opt_maxLogFileSize :: pyval
  opt_defaultMemory :: pyval
  opt_defaultCpu :: pyval
  opt_maxJobs :: pyval
  opt_maxThreads :: pyval
  opt_stats :: bool

subsection \<open>Files and directories\<close>

definition isdir :: "world \<Rightarrow> string \<Rightarrow> bool" where
  "isdir w p = (files w p = Some Dir)"

definition isfile :: "world \<Rightarrow> string \<Rightarrow> bool" where
  "isfile w p = (case files w p of Some (File c) \<Rightarrow> True | _ \<Rightarrow> False)"

text \<open>
  The directory in which an entry is made is the path up to its last slash, without that
  slash, as \<^verbatim>\<open>os.path.dirname\<close> gives it. The root exists, and so does the current
  directory, in which a path without a slash is looked up.
\<close>

definition dirname :: "string \<Rightarrow> string" where
  "dirname p =
     (let head = rev (dropWhile (\<lambda>c. c \<noteq> CHR ''/'') (rev p))
      in if list_all (\<lambda>c. c = CHR ''/'') head then head
         else rev (dropWhile (\<lambda>c. c = CHR ''/'') (rev head)))"

definition parent_exists :: "world \<Rightarrow> string \<Rightarrow> bool" where
  "parent_exists w p = (list_all (\<lambda>c. c = CHR ''/'') (dirname p) \<or> isdir w (dirname p))"

text \<open>
  \<^verbatim>\<open>os.mkdir(p)\<close> raises when the path exists (as the root does, and the empty path
  names nothing) and when the directory in which it is to be made does not exist.
\<close>

definition mkdir :: "string \<Rightarrow> world \<Rightarrow> error + world" where
  "mkdir p w =
     (if list_all (\<lambda>c. c = CHR ''/'') p \<or> files w p \<noteq> None \<or> \<not> parent_exists w p
      then Inl (OSError p)
      else Inr (w\<lparr>files := (files w)(p \<mapsto> Dir)\<rparr>))"

text \<open>
  \<^verbatim>\<open>open(p, 'w')\<close> raises for the empty path, for a path that ends with a slash, for a
  directory, and when the directory of the path does not exist; otherwise it empties or
  creates the file.
\<close>

definition openable :: "world \<Rightarrow> string \<Rightarrow> bool" where
  "openable w p = (p \<noteq> [] \<and> last p \<noteq> CHR ''/'' \<and> \<not> isdir w p \<and> parent_exists w p)"

definition open_w :: "string \<Rightarrow> world \<Rightarrow> error + world" where
  "open_w p w =
     (if openable w p then Inr (w\<lparr>files := (files w)(p \<mapsto> File (Bytes []))\<rparr>)
      else Inl (IOError p))"

definition put :: "string \<Rightarrow> content \<Rightarrow> world \<Rightarrow> world" where
  "put p c w = w\<lparr>files := (files w)(p \<mapsto> File c)\<rparr>"

subsection \<open>The functions of the script\<close>

text \<open>
  \<open>loadEnvironment\<close>: the environment of the process is pickled into the environment
  file of the job tree.
\<close>

definition loadEnvironment :: "'h platform \<Rightarrow> config \<Rightarrow> world \<Rightarrow> world \<times> (error + unit)" where
  "loadEnvironment P config w =
     (case config ''job_tree'' of
        None \<Rightarrow> (w, Inl (KeyError ''job_tree''))
      | Some jt \<Rightarrow>
          (case open_w (getEnvironmentFileName P jt) w of
             Inl e \<Rightarrow> (w, Inl e)
           | Inr w1 \<Rightarrow> (put (getEnvironmentFileName P jt) (Pickled (environ w)) w1, Inr ())))"

text \<open>
  \<open>writeConfig\<close>: the file is opened for writing, which empties it, and the element is
  written into it; when the library raises, the file keeps what was written before.
\<close>

definition writeConfig :: "'h platform \<Rightarrow> config \<Rightarrow> world \<Rightarrow> world \<times> (error + unit)" where
  "writeConfig P config w =
     (case config ''job_tree'' of
        None \<Rightarrow> (w, Inl (KeyError ''job_tree''))
      | Some jt \<Rightarrow>
          (case open_w (getConfigFileName P jt) w of
             Inl e \<Rightarrow> (w, Inl e)
           | Inr w1 \<Rightarrow>
               (case xml_write config of
                  (text, Some e) \<Rightarrow> (put (getConfigFileName P jt) (Bytes text) w1, Inl e)
                | (text, None) \<Rightarrow> (put (getConfigFileName P jt) (Bytes text) w1, Inr ()))))"

text \<open>\<^verbatim>\<open>ET.parse(path).getroot()\<close>: the attributes of the document in the file.\<close>

definition parse_file :: "world \<Rightarrow> string \<Rightarrow> error + config" where
  "parse_file w p =
     (case files w p of
        None \<Rightarrow> Inl (IOError p)
      | Some Dir \<Rightarrow> Inl (IOError p)
      | Some (File (Pickled env)) \<Rightarrow> Inl ParseError
      | Some (File (Bytes text)) \<Rightarrow> xml_parse text)"

text \<open>
  \<open>reloadJobTree\<close>: the three assertions, then the configuration is read, its
  \<open>log_level\<close> is overwritten, it is written back, and the batch system is loaded from it.
  The result is the pair the source returns.
\<close>

definition reloadJobTree ::
  "'h platform \<Rightarrow> string \<Rightarrow> world \<Rightarrow> world \<times> (error + config \<times> 'h batchSystem)" where
  "reloadJobTree P jobTree w =
     (if \<not> isfile w (getConfigFileName P jobTree) then (w, Inl AssertionError)
      else if \<not> isfile w (getEnvironmentFileName P jobTree) then (w, Inl AssertionError)
      else if \<not> isdir w (getJobFileDirName P jobTree) then (w, Inl AssertionError)
      else
     (case parse_file w (getConfigFileName P jobTree) of
        Inl e \<Rightarrow> (w, Inl e)
      | Inr config0 \<Rightarrow>
     (let config = config0(''log_level'' \<mapsto> loggingLevel w) in
     (case writeConfig P config w of
        (w1, Inl e) \<Rightarrow> (w1, Inl e)
      | (w1, Inr u) \<Rightarrow>
     (case loadTheBatchSystem (construct P) (sys_maxint P) config of
        (config1, Inl e) \<Rightarrow> (w1, Inl e)
      | (config1, Inr batchSystem) \<Rightarrow> (w1, Inr (config1, batchSystem)))))))"

text \<open>Sequencing for the conversions of \<open>createJobTree\<close>: the first exception ends the run.\<close>

definition bind :: "error + 'a \<Rightarrow> ('a \<Rightarrow> error + 'b) \<Rightarrow> error + 'b" where
  "bind m f = (case m of Inl e \<Rightarrow> Inl e | Inr x \<Rightarrow> f x)"

text \<open>
  The configuration that \<open>createJobTree\<close> assembles before it loads the batch system, the
  assignments in the order of the source.
\<close>

definition draftConfig :: "options \<Rightarrow> string \<Rightarrow> string \<Rightarrow> error + config" where
  "draftConfig opts jobTree level =
     bind (py_int_of (opt_retryCount opts)) (\<lambda>retry.
     bind (py_float_of (opt_maxJobDuration opts)) (\<lambda>duration.
     bind (py_float_of (opt_jobTime opts)) (\<lambda>time.
     bind (py_int_of (opt_maxLogFileSize opts)) (\<lambda>logSize.
     bind (py_int_of (opt_defaultMemory opts)) (\<lambda>memory.
     bind (py_int_of (opt_defaultCpu opts)) (\<lambda>cpu.
     bind (py_int_of (opt_maxJobs opts)) (\<lambda>jobs.
     bind (py_int_of (opt_maxThreads opts)) (\<lambda>threads.
       Inr (let config =
                  [''log_level'' \<mapsto> level,
                   ''job_tree'' \<mapsto> jobTree,
                   ''parasol_command'' \<mapsto> opt_parasolCommand opts,
                   ''try_count'' \<mapsto> py_str (retry + 1),
                   ''max_job_duration'' \<mapsto> py_str_float duration,
                   ''batch_system'' \<mapsto> opt_batchSystem opts,
                   ''job_time'' \<mapsto> py_str_float time,
                   ''max_log_file_size'' \<mapsto> py_str logSize,
                   ''default_memory'' \<mapsto> py_str memory,
                   ''default_cpu'' \<mapsto> py_str cpu,
                   ''max_jobs'' \<mapsto> py_str jobs,
                   ''max_threads'' \<mapsto> py_str threads]
            in if opt_stats opts then config(''stats'' \<mapsto> []) else config)))))))))"

text \<open>
  The rescue frequency written into the configuration: the one of the batch system,
  replaced by the option when it is given. Both conversions are made, in this order.
\<close>

definition rescueFrequency :: "'h platform \<Rightarrow> options \<Rightarrow> 'h batchSystem \<Rightarrow> error + string" where
  "rescueFrequency P opts batchSystem =
     bind (py_float_of (VNum (getRescueJobFrequency P batchSystem))) (\<lambda>own.
       (case opt_rescueJobsFrequency opts of
          None \<Rightarrow> Inr (py_str_float own)
        | Some v \<Rightarrow> bind (py_float_of v) (\<lambda>given. Inr (py_str_float given))))"

text \<open>
  \<open>createJobTree\<close>, for the job tree path of the options: the two directories are made,
  the configuration is assembled, the batch system is loaded from it, the rescue frequency
  is added and the configuration is written.
\<close>

definition createJobTree ::
  "'h platform \<Rightarrow> options \<Rightarrow> string \<Rightarrow> world \<Rightarrow> world \<times> (error + config \<times> 'h batchSystem)" where
  "createJobTree P opts path w =
     (let jobTree = abspath P path in
     (case mkdir jobTree w of
        Inl e \<Rightarrow> (w, Inl e)
      | Inr w1 \<Rightarrow>
     (case mkdir (getJobFileDirName P jobTree) w1 of
        Inl e \<Rightarrow> (w1, Inl e)
      | Inr w2 \<Rightarrow>
     (case draftConfig opts jobTree (loggingLevel w2) of
        Inl e \<Rightarrow> (w2, Inl e)
      | Inr config \<Rightarrow>
     (case loadTheBatchSystem (construct P) (sys_maxint P) config of
        (config1, Inl e) \<Rightarrow> (w2, Inl e)
      | (config1, Inr batchSystem) \<Rightarrow>
     (case rescueFrequency P opts batchSystem of
        Inl e \<Rightarrow> (w2, Inl e)
      | Inr frequency \<Rightarrow>
     (let config2 = config1(''rescue_jobs_frequency'' \<mapsto> frequency) in
     (case writeConfig P config2 w2 of
        (w3, Inl e) \<Rightarrow> (w3, Inl e)
      | (w3, Inr u) \<Rightarrow> (w3, Inr (config2, batchSystem))))))))))"

text \<open>\<^verbatim>\<open>float(config.attrib[key])\<close> and \<^verbatim>\<open>int(config.attrib[key])\<close>.\<close>

definition configFloat :: "config \<Rightarrow> string \<Rightarrow> error + pynum" where
  "configFloat config key =
     (case config key of
        None \<Rightarrow> Inl (KeyError key)
      | Some s \<Rightarrow> map_sum id PFloat (py_float s))"

definition configInt :: "config \<Rightarrow> string \<Rightarrow> error + int" where
  "configInt config key =
     (case config key of
        None \<Rightarrow> Inl (KeyError key)
      | Some s \<Rightarrow> py_int s)"

text \<open>
  The \<open>Job\<close> that \<open>createFirstJob\<close> constructs, its arguments evaluated in the order of
  the call. \<open>None\<close> is the default of \<open>memory\<close> and of \<open>cpu\<close>.
\<close>

definition firstJob ::
  "'h platform \<Rightarrow> string \<Rightarrow> config \<Rightarrow> pynum option \<Rightarrow> pynum option \<Rightarrow> error + job" where
  "firstJob P command config memory cpu =
     bind (if memory = None \<or> num_eq (the memory) (PInt (sys_maxint P))
           then configFloat config ''default_memory''
           else Inr (the memory)) (\<lambda>memory.
     bind (if cpu = None \<or> num_eq (the cpu) (PInt (sys_maxint P))
           then configFloat config ''default_cpu''
           else Inr (the cpu)) (\<lambda>cpu.
     bind (configInt config ''try_count'') (\<lambda>tryCount.
     (case config ''job_tree'' of
        None \<Rightarrow> Inl (KeyError ''job_tree'')
      | Some jt \<Rightarrow> Inr (Job command memory cpu tryCount (getJobFileDirName P jt))))))"

text \<open>\<open>createFirstJob\<close>: the job is constructed and written.\<close>

definition createFirstJob ::
  "'h platform \<Rightarrow> string \<Rightarrow> config \<Rightarrow> pynum option \<Rightarrow> pynum option \<Rightarrow> world
     \<Rightarrow> world \<times> (error + unit)" where
  "createFirstJob P command config memory cpu w =
     (case firstJob P command config memory cpu of
        Inl e \<Rightarrow> (w, Inl e)
      | Inr job \<Rightarrow> (w\<lparr>jobRecords := jobRecords w @ [job]\<rparr>, Inr ()))"

text \<open>\<^verbatim>\<open>setLoggingFromOptions(options)\<close>.\<close>

definition setLoggingFromOptions :: "options \<Rightarrow> world \<Rightarrow> world" where
  "setLoggingFromOptions opts w =
     (case opt_logLevel opts of None \<Rightarrow> w | Some l \<Rightarrow> w\<lparr>loggingLevel := l\<rparr>)"

text \<open>
  \<open>runJobTreeScript\<close>, up to the call of \<open>mainLoop\<close>: the result is the configuration and
  the batch system that \<open>mainLoop\<close> is called with.
\<close>

definition runJobTreeScript ::
  "'h platform \<Rightarrow> options \<Rightarrow> world \<Rightarrow> world \<times> (error + config \<times> 'h batchSystem)" where
  "runJobTreeScript P opts w0 =
     (let w = setLoggingFromOptions opts w0 in
     (case opt_jobTree opts of
        None \<Rightarrow> (w, Inl AssertionError)
      | Some path \<Rightarrow>
     (case (if isdir w path then reloadJobTree P path w
            else (case opt_command opts of
                    None \<Rightarrow> (w, Inl AssertionError)
                  | Some cmd \<Rightarrow>
                      (case createJobTree P opts path w of
                         (w1, Inl e) \<Rightarrow> (w1, Inl e)
                       | (w1, Inr (config, batchSystem)) \<Rightarrow>
                           (case createFirstJob P cmd config None None w1 of
                              (w2, Inl e) \<Rightarrow> (w2, Inl e)
                            | (w2, Inr u) \<Rightarrow> (w2, Inr (config, batchSystem)))))) of
        (w3, Inl e) \<Rightarrow> (w3, Inl e)
      | (w3, Inr (config, batchSystem)) \<Rightarrow>
          (case loadEnvironment P config w3 of
             (w4, Inl e) \<Rightarrow> (w4, Inl e)
           | (w4, Inr u) \<Rightarrow> (w4, Inr (config, batchSystem))))))"

text \<open>
  The table of names that the chain of comparisons in \<open>batchSystemConstructionFn\<close>
  accepts, with the class each one constructs (lemma \<open>batchSystemConstructionFn_table\<close>).
\<close>

definition knownBackend :: "string \<Rightarrow> backend option" where
  "knownBackend s =
     (if s = ''parasol'' then Some ParasolBatchSystem
      else if s = ''single_machine'' \<or> s = ''singleMachine'' then Some SingleMachineBatchSystem
      else if s = ''gridengine'' \<or> s = ''gridEngine'' then Some GridengineBatchSystem
      else if s = ''torque'' \<or> s = ''Torque'' then Some TorqueBatchSystem
      else if s = ''drmaa'' \<or> s = ''Drmaa'' then Some DrmaaBatchSystem
      else if s = ''drmaaTorque'' \<or> s = ''DrmaaTorque'' then Some DrmaaTorqueBatchSystem
      else if s = ''acid_test'' \<or> s = ''acidTest''
      then Some SingleMachineBatchSystem_badWorker
      else None)"

text \<open>The names of that table, as the source spells them.\<close>

definition knownNames :: "string list" where
  "knownNames =
     [''parasol'', ''single_machine'', ''singleMachine'', ''gridengine'', ''gridEngine'',
      ''torque'', ''Torque'', ''drmaa'', ''Drmaa'', ''drmaaTorque'', ''DrmaaTorque'',
      ''acid_test'', ''acidTest'']"

text \<open>
  The configuration a backend's construction leaves behind: only the fault-injecting
  single-machine backend touches it, forcing \<open>try_count\<close> to 32.
\<close>

definition afterConstruction :: "backend \<Rightarrow> config \<Rightarrow> config" where
  "afterConstruction b c =
     (if b = SingleMachineBatchSystem_badWorker then c(''try_count'' \<mapsto> ''32'') else c)"

text \<open>
  The backend strings that construct the fault-injecting backend: its two names, and a
  hybrid specification one of whose two backends it is.
\<close>

definition usesAcidTest :: "string \<Rightarrow> bool" where
  "usesAcidTest s =
     (knownBackend s = Some SingleMachineBatchSystem_badWorker
      \<or> (let fs = py_split s in
          (length fs = 3 \<or> length fs = 4)
          \<and> (knownBackend (fs ! 0) = Some SingleMachineBatchSystem_badWorker
             \<or> knownBackend (fs ! 1) = Some SingleMachineBatchSystem_badWorker)))"

text \<open>
  Modelled from the spec: the class \<open>CombinedBatchSystem\<close> is not part of the script; by
  section 4.3 of the specification a submission to the hybrid handle goes to backend A when
  the predicate holds of it and to backend B otherwise. \<open>route\<close> gives the handle of the
  backend that a submission goes to; backend A is the second argument of
  \<^verbatim>\<open>CombinedBatchSystem(config, batchSystem1, batchSystem2, predicate)\<close> and backend B the
  third. A handle of a single backend has nothing to choose.
\<close>

fun route :: "'h batchSystem \<Rightarrow> string \<Rightarrow> pynum \<Rightarrow> pynum \<Rightarrow> 'h" where
  "route (Single h) command memory cpu = h"
| "route (CombinedBatchSystem a b p) command memory cpu =
     (if p command memory cpu then a else b)"

text \<open>
  A well-formed hybrid specification, in the words of the specification: three or four
  whitespace-separated fields, two names of known backends, a numeric threshold and, when
  there is a fourth field, an integer.
\<close>

definition wellFormedHybrid :: "string \<Rightarrow> bool" where
  "wellFormedHybrid s =
     (let fs = py_split s in
      (length fs = 3 \<or> length fs = 4)
      \<and> knownBackend (fs ! 0) \<noteq> None \<and> knownBackend (fs ! 1) \<noteq> None
      \<and> \<not> isl (py_float (fs ! 2))
      \<and> (length fs = 4 \<longrightarrow> \<not> isl (py_int (fs ! 3))))"

text \<open>What a call returned, when it returned.\<close>

definition returned :: "'s \<times> (error + 'a) \<Rightarrow> 'a option" where
  "returned r = (case snd r of Inl e \<Rightarrow> None | Inr x \<Rightarrow> Some x)"

text \<open>
  Inputs used to run the model: a configuration with a given \<open>batch_system\<close> string and
  \<open>max_jobs\<close> set to 7, the value of \<^verbatim>\<open>sys.maxint\<close> on a 64-bit platform, and
  stand-ins for the constructors of the backends.
\<close>

definition configWith :: "string \<Rightarrow> config" where
  "configWith spec = [''batch_system'' \<mapsto> spec, ''max_jobs'' \<mapsto> ''7'']"

definition maxint64 :: int where
  "maxint64 = 2 ^ 63 - 1"

definition alwaysBuilds :: "backend \<Rightarrow> config \<Rightarrow> error + backend" where
  "alwaysBuilds b c = Inr b"

text \<open>A constructor that records the \<open>max_jobs\<close> value it reads.\<close>

definition recordsMaxJobs :: "backend \<Rightarrow> config \<Rightarrow> error + backend \<times> string option" where
  "recordsMaxJobs b c = Inr (b, c ''max_jobs'')"

text \<open>A constructor that fails for one backend, as when the parasol hub cannot be reached.\<close>

definition parasolFails :: "backend \<Rightarrow> config \<Rightarrow> error + backend" where
  "parasolFails b c =
     (if b = ParasolBatchSystem then Inl (BackendError ''parasol'') else Inr b)"

text \<open>A constructor that fails when it reads a given \<open>max_jobs\<close>, and records it otherwise.\<close>

definition refusesMaxJobs ::
  "string \<Rightarrow> backend \<Rightarrow> config \<Rightarrow> error + backend \<times> string option" where
  "refusesMaxJobs n b c =
     (if c ''max_jobs'' = Some n then Inl (BackendError n) else Inr (b, c ''max_jobs''))"

text \<open>
  A platform for the examples: a 64-bit \<^verbatim>\<open>sys.maxint\<close>, absolute paths (which
  \<^verbatim>\<open>abspath\<close> returns as they are), constructors that always build, a rescue frequency of
  two minutes, and the artifacts of a job tree named inside its directory.
\<close>

definition examplePlatform :: "backend platform" where
  "examplePlatform =
     \<lparr>sys_maxint = maxint64,
      abspath = (\<lambda>p. p),
      construct = alwaysBuilds,
      getRescueJobFrequency = (\<lambda>b. PInt 120),
      getConfigFileName = (\<lambda>jt. jt @ ''/config.xml''),
      getEnvironmentFileName = (\<lambda>jt. jt @ ''/environ.pickle''),
      getJobFileDirName = (\<lambda>jt. jt @ ''/jobs'')\<rparr>"

text \<open>
  A configuration of a job tree at \<open>/jt\<close>, with the fields that \<open>createFirstJob\<close> reads:
  four tries, a default memory of 1 GiB and two cpus by default.
\<close>

definition exampleConfig :: config where
  "exampleConfig =
     [''job_tree'' \<mapsto> ''/jt'', ''try_count'' \<mapsto> ''4'',
      ''default_memory'' \<mapsto> ''1073741824'', ''default_cpu'' \<mapsto> ''2'']"

text \<open>
  An empty world, one whose directory \<open>/jt\<close> holds a configuration file only, and one
  whose directory \<open>/jt\<close> is empty.
\<close>

definition emptyWorld :: world where
  "emptyWorld = \<lparr>files = Map.empty, loggingLevel = ''INFO'', environ = [], jobRecords = []\<rparr>"

definition configOnlyWorld :: world where
  "configOnlyWorld =
     emptyWorld\<lparr>files := [''/jt'' \<mapsto> Dir, ''/jt/config.xml'' \<mapsto> File (Bytes ''<config />'')]\<rparr>"

definition directoryWorld :: world where
  "directoryWorld = emptyWorld\<lparr>files := [''/jt'' \<mapsto> Dir]\<rparr>"

text \<open>The options of a run on the job tree \<open>/jt\<close>, with the defaults of the script.\<close>

definition defaultOptions :: options where
  "defaultOptions =
     \<lparr>opt_logLevel = None,
      opt_command = Some ''echo hi'',
      opt_jobTree = Some ''/jt'',
      opt_batchSystem = ''singleMachine'',
      opt_parasolCommand = ''parasol'',
      opt_retryCount = VNum (PInt 0),
      opt_rescueJobsFrequency = None,
      opt_maxJobDuration = VStr ''9223372036854775807'',
      opt_jobTime = VNum (PInt 30),
      opt_maxLogFileSize = VNum (PInt 50120),
      opt_defaultMemory = VNum (PInt 2147483648),
      opt_defaultCpu = VNum (PInt 1),
      opt_maxJobs = VNum (PInt maxint64),
      opt_maxThreads = VNum (PInt 4),
      opt_stats = False\<rparr>"

text \<open>
  The options of a run with a given backend string and parasol command that asks for
  three retries, a default memory of 1 GiB and two cpus by default, and the configuration
  that a run with them assembles at \<open>/jt\<close> on the example platform, before and after the
  rescue frequency is added.
\<close>

definition exampleOptions :: "string \<Rightarrow> string \<Rightarrow> options" where
  "exampleOptions bs pc =
     defaultOptions\<lparr>opt_batchSystem := bs, opt_parasolCommand := pc,
       opt_retryCount := VNum (PInt 3),
       opt_defaultMemory := VStr ''1073741824'',
       opt_defaultCpu := VNum (PInt 2)\<rparr>"

definition draftExample :: "string \<Rightarrow> string \<Rightarrow> config" where
  "draftExample bs pc =
     [''log_level'' \<mapsto> ''INFO'',
      ''job_tree'' \<mapsto> ''/jt'',
      ''parasol_command'' \<mapsto> pc,
      ''try_count'' \<mapsto> ''4'',
      ''max_job_duration'' \<mapsto> ''9.22337203685e+18'',
      ''batch_system'' \<mapsto> bs,
      ''job_time'' \<mapsto> ''30.0'',
      ''max_log_file_size'' \<mapsto> ''50120'',
      ''default_memory'' \<mapsto> ''1073741824'',
      ''default_cpu'' \<mapsto> ''2'',
      ''max_jobs'' \<mapsto> ''9223372036854775807'',
      ''max_threads'' \<mapsto> ''4'']"

definition createdConfig :: "string \<Rightarrow> string \<Rightarrow> config" where
  "createdConfig bs pc = (draftExample bs pc)(''rescue_jobs_frequency'' \<mapsto> ''120.0'')"

text \<open>
  The world after a run has created the job tree \<open>/jt\<close> in the empty world, with the
  configuration and the first job it has written.
\<close>

definition createdWorld :: "config \<Rightarrow> job \<Rightarrow> world" where
  "createdWorld config job =
     \<lparr>files = [''/jt'' \<mapsto> Dir,
               ''/jt/jobs'' \<mapsto> Dir,
               ''/jt/config.xml'' \<mapsto> File (Bytes (fst (xml_write config))),
               ''/jt/environ.pickle'' \<mapsto> File (Pickled [])],
      loggingLevel = ''INFO'',
      environ = [],
      jobRecords = [job]\<rparr>"

text \<open>A parasol command with a tab between its two words.\<close>

definition tabbedCommand :: string where
  "tabbedCommand = ''parasol'' @ [CHR 0x09] @ ''-x''"

section \<open>Evaluation of the built-in conversions\<close>

lemma digit_char_eval:
  "digit_char 0 = CHR ''0''" "digit_char 1 = CHR ''1''" "digit_char 2 = CHR ''2''"
  "digit_char 3 = CHR ''3''" "digit_char 4 = CHR ''4''" "digit_char 5 = CHR ''5''"
  "digit_char 6 = CHR ''6''" "digit_char 7 = CHR ''7''" "digit_char 8 = CHR ''8''"
  "digit_char 9 = CHR ''9''" "digit_char (Suc 0) = CHR ''1''"
  by code_simp+

lemmas eval_simps =
  py_split_def isspace_def py_strip_def py_int_def signed_digits_def isdigit_def
  nat_of_digits_def digit_val_def py_str_def digits_of_nat.simps digit_char_eval
  py_float_def parse_decimal_def lower_def to_binary64_def bitlen.simps round_half_even_def
  Let_def

lemma py_str_32: "py_str 32 = ''32''"
  by (simp add: eval_simps)

lemma py_str_maxint64: "py_str maxint64 = ''9223372036854775807''"
  by (simp add: eval_simps maxint64_def)

lemma py_float_1000000: "py_float ''1000000'' = Inr (Finite False 1000000)"
  by (simp add: eval_simps)

lemma py_int_5: "py_int ''5'' = Inr 5"
  by (simp add: eval_simps)

lemma py_str_5: "py_str 5 = ''5''"
  by (simp add: eval_simps)

section \<open>The table of backend names\<close>

lemma batchSystemConstructionFn_table:
  "batchSystemConstructionFn mk s c =
     (case knownBackend s of
        None \<Rightarrow> (c, Inr None)
      | Some b \<Rightarrow> (case mk b c of
                    Inl e \<Rightarrow> (c, Inl e)
                  | Inr h \<Rightarrow> (afterConstruction b c, Inr (Some h))))"
  by (simp add: batchSystemConstructionFn_def knownBackend_def afterConstruction_def py_str_32
      map_sum_def split: sum.splits)

lemma knownBackend_iff: "knownBackend s \<noteq> None \<longleftrightarrow> s \<in> set knownNames"
  unfolding knownBackend_def knownNames_def by (simp split: if_splits)

lemma knownNames_split: "\<forall>n \<in> set knownNames. py_split n = [n]"
  unfolding knownNames_def by (simp add: py_split_def isspace_def)

lemma knownBackend_split: "knownBackend s = Some b \<Longrightarrow> py_split s = [s]"
  using knownBackend_iff [of s] knownNames_split by auto

lemma hybrid_not_known:
  "length (py_split s) = 3 \<or> length (py_split s) = 4 \<Longrightarrow> knownBackend s = None"
  using knownBackend_split [of s] by (cases "knownBackend s") auto

lemma afterConstruction_max_jobs: "afterConstruction b c ''max_jobs'' = c ''max_jobs''"
  by (simp add: afterConstruction_def)

section \<open>The hybrid branch of \<open>loadTheBatchSystem\<close>\<close>

text \<open>
  What a successful hybrid construction has done: both conversions succeeded, \<open>max_jobs\<close>
  was present, both names were known, and each constructor returned a handle on the
  configuration it was called with.
\<close>

lemma hybrid_success:
  assumes "config ''batch_system'' = Some s"
    and "fs = py_split s"
    and "length fs = 3 \<or> length fs = 4"
    and "loadTheBatchSystem mk maxint config = (config', Inr h)"
  shows "\<exists>T maxJobs old bA bB hA hB.
           py_float (fs ! 2) = Inr T
         \<and> (if length fs = 4 then py_int (fs ! 3) = Inr maxJobs else maxJobs = maxint)
         \<and> config ''max_jobs'' = Some old
         \<and> knownBackend (fs ! 0) = Some bA \<and> knownBackend (fs ! 1) = Some bB
         \<and> mk bA (config(''max_jobs'' \<mapsto> py_str maxJobs)) = Inr hA
         \<and> mk bB ((afterConstruction bA (config(''max_jobs'' \<mapsto> py_str maxJobs)))
                     (''max_jobs'' \<mapsto> old)) = Inr hB
         \<and> config' = afterConstruction bB
                        ((afterConstruction bA (config(''max_jobs'' \<mapsto> py_str maxJobs)))
                           (''max_jobs'' \<mapsto> old))
         \<and> h = CombinedBatchSystem hA hB
                 (\<lambda>command memory cpu. num_le memory (PFloat T))"
proof -
  have k: "knownBackend s = None"
    using assms(2,3) hybrid_not_known by blast
  show ?thesis
    using assms k unfolding loadTheBatchSystem_def
    by (auto simp: batchSystemConstructionFn_table Let_def
        split: sum.splits option.splits prod.splits if_splits)
qed

lemma py_split_parasol_first:
  "py_split ''parasol singleMachine 1000000 5'' = [''parasol'', ''singleMachine'', ''1000000'', ''5'']"
  by (simp add: py_split_def isspace_def)

lemma py_split_parasol_second:
  "py_split ''singleMachine parasol 1000000 5'' = [''singleMachine'', ''parasol'', ''1000000'', ''5'']"
  by (simp add: py_split_def isspace_def)

lemma py_split_four:
  "py_split ''singleMachine singleMachine 1000000 5'' =
     [''singleMachine'', ''singleMachine'', ''1000000'', ''5'']"
  by (simp add: py_split_def isspace_def)

lemma py_split_three:
  "py_split ''singleMachine singleMachine 1000000'' =
     [''singleMachine'', ''singleMachine'', ''1000000'']"
  by (simp add: py_split_def isspace_def)

lemmas example_simps =
  loadTheBatchSystem_def batchSystemConstructionFn_table knownBackend_def
  afterConstruction_def configWith_def py_split_parasol_first py_split_parasol_second
  py_split_four py_split_three py_float_1000000 py_int_5 py_str_5 py_str_maxint64

section \<open>Restoring \<open>max_jobs\<close>\<close>

text \<open>
  C1, as amended. For a backend string of three or four fields, the call of
  \<open>loadTheBatchSystem\<close> constructs the first backend on the configuration with \<open>max_jobs\<close>
  overwritten, when the threshold and the override convert, \<open>max_jobs\<close> is present and the
  first name is known. If that call of the constructor does not raise (or is not reached),
  \<open>loadTheBatchSystem\<close> leaves \<open>max_jobs\<close> at the value it had before, whether it returns a
  handle or raises. If that call raises, the exception leaves \<open>loadTheBatchSystem\<close> and
  \<open>max_jobs\<close> keeps the substituted value: the write-back is the statement after the
  construction and is not protected by a \<open>finally\<close>.
\<close>

theorem max_jobs_restored_unless_first_constructor_raises:
  assumes "config ''batch_system'' = Some s"
    and "fs = py_split s"
    and "length fs = 3 \<or> length fs = 4"
  shows "((\<forall>b T n old e.
             knownBackend (fs ! 0) = Some b \<and> py_float (fs ! 2) = Inr T
             \<and> (if length fs = 4 then py_int (fs ! 3) = Inr n else n = maxint)
             \<and> config ''max_jobs'' = Some old
             \<longrightarrow> mk b (config(''max_jobs'' \<mapsto> py_str n)) \<noteq> Inl e)
          \<longrightarrow> fst (loadTheBatchSystem mk maxint config) ''max_jobs'' = config ''max_jobs'')
       \<and> (\<forall>b T n old e.
             knownBackend (fs ! 0) = Some b \<and> py_float (fs ! 2) = Inr T
             \<and> (if length fs = 4 then py_int (fs ! 3) = Inr n else n = maxint)
             \<and> config ''max_jobs'' = Some old
             \<and> mk b (config(''max_jobs'' \<mapsto> py_str n)) = Inl e
             \<longrightarrow> loadTheBatchSystem mk maxint config
                   = (config(''max_jobs'' \<mapsto> py_str n), Inl e))"
proof (intro conjI impI allI)
  have k: "knownBackend s = None"
    using assms(2,3) hybrid_not_known by blast
  {
    assume a: "\<forall>b T n old e.
             knownBackend (fs ! 0) = Some b \<and> py_float (fs ! 2) = Inr T
             \<and> (if length fs = 4 then py_int (fs ! 3) = Inr n else n = maxint)
             \<and> config ''max_jobs'' = Some old
             \<longrightarrow> mk b (config(''max_jobs'' \<mapsto> py_str n)) \<noteq> Inl e"
    show "fst (loadTheBatchSystem mk maxint config) ''max_jobs'' = config ''max_jobs''"
    proof (cases "length fs = 4")
      case True
      then show ?thesis
        unfolding loadTheBatchSystem_def
        using assms(1,2) k a
        by (auto simp: batchSystemConstructionFn_table afterConstruction_max_jobs Let_def
            split: sum.splits option.splits prod.splits)
    next
      case False
      with assms(3) have "length fs = 3" by simp
      then show ?thesis
        unfolding loadTheBatchSystem_def
        using assms(1,2) k a
        by (auto simp: batchSystemConstructionFn_table afterConstruction_max_jobs Let_def
            split: sum.splits option.splits prod.splits)
    qed
  }
  fix b T n old e
  assume r: "knownBackend (fs ! 0) = Some b \<and> py_float (fs ! 2) = Inr T
             \<and> (if length fs = 4 then py_int (fs ! 3) = Inr n else n = maxint)
             \<and> config ''max_jobs'' = Some old
             \<and> mk b (config(''max_jobs'' \<mapsto> py_str n)) = Inl e"
  show "loadTheBatchSystem mk maxint config = (config(''max_jobs'' \<mapsto> py_str n), Inl e)"
  proof (cases "length fs = 4")
    case True
    then show ?thesis
      unfolding loadTheBatchSystem_def
      using assms(1,2) k r
      by (auto simp: batchSystemConstructionFn_table Let_def)
  next
    case False
    with assms(3) have "length fs = 3" by simp
    then show ?thesis
      unfolding loadTheBatchSystem_def
      using assms(1,2) k r
      by (auto simp: batchSystemConstructionFn_table Let_def)
  qed
qed

text \<open>
  The theorem at the backend string \<open>singleMachine singleMachine 1000000 5\<close> and a
  configuration with \<open>max_jobs = 7\<close>, for three behaviours of the constructors. When both
  build, \<open>max_jobs\<close> is 7 afterwards. When the first builds (it reads 5) and the second
  raises (it reads 7), \<open>max_jobs\<close> is 7 afterwards. When the first raises (it reads 5),
  \<open>max_jobs\<close> is left at 5.
\<close>

theorem max_jobs_restored_witness:
  "returned (loadTheBatchSystem (refusesMaxJobs ''9'') maxint64
       (configWith ''singleMachine singleMachine 1000000 5''))
     = Some (CombinedBatchSystem (SingleMachineBatchSystem, Some ''5'')
               (SingleMachineBatchSystem, Some ''7'')
               (\<lambda>command memory cpu. num_le memory (PFloat (Finite False 1000000))))
   \<and> fst (loadTheBatchSystem (refusesMaxJobs ''9'') maxint64
       (configWith ''singleMachine singleMachine 1000000 5'')) ''max_jobs'' = Some ''7''
   \<and> snd (loadTheBatchSystem (refusesMaxJobs ''7'') maxint64
       (configWith ''singleMachine singleMachine 1000000 5'')) = Inl (BackendError ''7'')
   \<and> fst (loadTheBatchSystem (refusesMaxJobs ''7'') maxint64
       (configWith ''singleMachine singleMachine 1000000 5'')) ''max_jobs'' = Some ''7''
   \<and> loadTheBatchSystem (refusesMaxJobs ''5'') maxint64
       (configWith ''singleMachine singleMachine 1000000 5'')
     = ((configWith ''singleMachine singleMachine 1000000 5'')(''max_jobs'' \<mapsto> ''5''),
        Inl (BackendError ''5''))"
proof -
  let ?s = "''singleMachine singleMachine 1000000 5''"
  let ?fs = "[''singleMachine'', ''singleMachine'', ''1000000'', ''5'']"
  let ?cfg = "configWith ?s"
  have c: "?cfg ''batch_system'' = Some ?s"
    by (simp add: configWith_def)
  have len: "length ?fs = 3 \<or> length ?fs = 4"
    by simp
  note claim = max_jobs_restored_unless_first_constructor_raises
    [of ?cfg ?s ?fs, unfolded py_split_four, OF c refl len]
  have five: "\<And>n. py_int ''5'' = Inr n \<Longrightarrow> py_str n = ''5''"
    by (simp add: py_int_5 py_str_5)
  have 1: "fst (loadTheBatchSystem (refusesMaxJobs ''9'') maxint64 ?cfg) ''max_jobs''
             = ?cfg ''max_jobs''"
  proof -
    have "\<forall>b T n old e.
             knownBackend (?fs ! 0) = Some b \<and> py_float (?fs ! 2) = Inr T
             \<and> (if length ?fs = 4 then py_int (?fs ! 3) = Inr n else n = maxint64)
             \<and> ?cfg ''max_jobs'' = Some old
             \<longrightarrow> refusesMaxJobs ''9'' b (?cfg(''max_jobs'' \<mapsto> py_str n)) \<noteq> Inl e"
      by (auto simp: refusesMaxJobs_def dest: five)
    with claim [of maxint64 "refusesMaxJobs ''9''"] show ?thesis
      by blast
  qed
  have 2: "fst (loadTheBatchSystem (refusesMaxJobs ''7'') maxint64 ?cfg) ''max_jobs''
             = ?cfg ''max_jobs''"
  proof -
    have "\<forall>b T n old e.
             knownBackend (?fs ! 0) = Some b \<and> py_float (?fs ! 2) = Inr T
             \<and> (if length ?fs = 4 then py_int (?fs ! 3) = Inr n else n = maxint64)
             \<and> ?cfg ''max_jobs'' = Some old
             \<longrightarrow> refusesMaxJobs ''7'' b (?cfg(''max_jobs'' \<mapsto> py_str n)) \<noteq> Inl e"
      by (auto simp: refusesMaxJobs_def dest: five)
    with claim [of maxint64 "refusesMaxJobs ''7''"] show ?thesis
      by blast
  qed
  have 3: "loadTheBatchSystem (refusesMaxJobs ''5'') maxint64 ?cfg
             = (?cfg(''max_jobs'' \<mapsto> py_str 5), Inl (BackendError ''5''))"
  proof -
    have "knownBackend (?fs ! 0) = Some SingleMachineBatchSystem
          \<and> py_float (?fs ! 2) = Inr (Finite False 1000000)
          \<and> (if length ?fs = 4 then py_int (?fs ! 3) = Inr 5 else 5 = maxint64)
          \<and> ?cfg ''max_jobs'' = Some ''7''
          \<and> refusesMaxJobs ''5'' SingleMachineBatchSystem (?cfg(''max_jobs'' \<mapsto> py_str 5))
              = Inl (BackendError ''5'')"
      by (simp add: knownBackend_def py_float_1000000 py_int_5 py_str_5 configWith_def
          refusesMaxJobs_def)
    with claim [of maxint64 "refusesMaxJobs ''5''"] show ?thesis
      by blast
  qed
  have 4: "returned (loadTheBatchSystem (refusesMaxJobs ''9'') maxint64 ?cfg)
     = Some (CombinedBatchSystem (SingleMachineBatchSystem, Some ''5'')
               (SingleMachineBatchSystem, Some ''7'')
               (\<lambda>command memory cpu. num_le memory (PFloat (Finite False 1000000))))"
    by (simp add: example_simps returned_def refusesMaxJobs_def)
  have 5: "snd (loadTheBatchSystem (refusesMaxJobs ''7'') maxint64 ?cfg)
             = Inl (BackendError ''7'')"
    by (simp add: example_simps refusesMaxJobs_def)
  have m: "?cfg ''max_jobs'' = Some ''7''"
    by (simp add: configWith_def)
  from 1 2 3 4 5 m show ?thesis
    by (simp add: py_str_5)
qed

text \<open>
  C1 as stated fails when the constructor of the first backend raises: the backend string
  is a well-formed four-field hybrid, the call raises, and \<open>max_jobs\<close> is left at the
  override 5 instead of the 7 it held before.
\<close>

theorem max_jobs_not_restored_counterexample:
  "wellFormedHybrid ''parasol singleMachine 1000000 5''
   \<and> configWith ''parasol singleMachine 1000000 5'' ''max_jobs'' = Some ''7''
   \<and> snd (loadTheBatchSystem parasolFails maxint64
       (configWith ''parasol singleMachine 1000000 5'')) = Inl (BackendError ''parasol'')
   \<and> fst (loadTheBatchSystem parasolFails maxint64
       (configWith ''parasol singleMachine 1000000 5'')) ''max_jobs'' = Some ''5''"
  by (simp add: example_simps wellFormedHybrid_def parasolFails_def)

section \<open>What the two constructors read\<close>

text \<open>
  C2, as amended. When a hybrid handle is built, backend A was constructed on the
  configuration with \<open>max_jobs\<close> overwritten: by the fourth field when there is one, and by
  \<^verbatim>\<open>sys.maxint\<close> (not by the current value) when there are three fields. Backend B was
  constructed afterwards on a configuration whose \<open>max_jobs\<close> is the original value.
\<close>

theorem hybrid_constructors_max_jobs:
  assumes "config ''batch_system'' = Some s"
    and "fs = py_split s"
    and "length fs = 3 \<or> length fs = 4"
    and "loadTheBatchSystem mk maxint config = (config', Inr h)"
  shows "\<exists>maxJobs bA bB hA hB p.
           (if length fs = 4 then py_int (fs ! 3) = Inr maxJobs else maxJobs = maxint)
         \<and> knownBackend (fs ! 0) = Some bA \<and> knownBackend (fs ! 1) = Some bB
         \<and> mk bA (config(''max_jobs'' \<mapsto> py_str maxJobs)) = Inr hA
         \<and> mk bB ((afterConstruction bA (config(''max_jobs'' \<mapsto> py_str maxJobs)))
                     (''max_jobs'' := config ''max_jobs'')) = Inr hB
         \<and> h = CombinedBatchSystem hA hB p"
proof -
  from hybrid_success [OF assms]
  obtain T maxJobs old bA bB hA hB where
    j: "if length fs = 4 then py_int (fs ! 3) = Inr maxJobs else maxJobs = maxint"
    and old: "config ''max_jobs'' = Some old"
    and kA: "knownBackend (fs ! 0) = Some bA" and kB: "knownBackend (fs ! 1) = Some bB"
    and mA: "mk bA (config(''max_jobs'' \<mapsto> py_str maxJobs)) = Inr hA"
    and mB: "mk bB ((afterConstruction bA (config(''max_jobs'' \<mapsto> py_str maxJobs)))
                     (''max_jobs'' \<mapsto> old)) = Inr hB"
    and h: "h = CombinedBatchSystem hA hB (\<lambda>command memory cpu. num_le memory (PFloat T))"
    by blast
  from mB old
  have "mk bB ((afterConstruction bA (config(''max_jobs'' \<mapsto> py_str maxJobs)))
                 (''max_jobs'' := config ''max_jobs'')) = Inr hB"
    by simp
  with j kA kB mA h show ?thesis by blast
qed

text \<open>
  The theorem at a four-field hybrid, with constructors that record the \<open>max_jobs\<close> they
  read: backend A read the override 5, backend B the original 7.
\<close>

theorem hybrid_constructors_max_jobs_witness:
  "map_option backendA (returned (loadTheBatchSystem recordsMaxJobs maxint64
       (configWith ''singleMachine parasol 1000000 5'')))
     = Some (SingleMachineBatchSystem, Some ''5'')
   \<and> map_option backendB (returned (loadTheBatchSystem recordsMaxJobs maxint64
       (configWith ''singleMachine parasol 1000000 5'')))
     = Some (ParasolBatchSystem, Some ''7'')"
proof -
  let ?cfg = "configWith ''singleMachine parasol 1000000 5''"
  let ?fs = "[''singleMachine'', ''parasol'', ''1000000'', ''5'']"
  obtain c h where L: "loadTheBatchSystem recordsMaxJobs maxint64 ?cfg = (c, Inr h)"
    by (simp add: example_simps recordsMaxJobs_def)
  have "\<exists>maxJobs bA bB hA hB p.
           (if length ?fs = 4 then py_int (?fs ! 3) = Inr maxJobs else maxJobs = maxint64)
         \<and> knownBackend (?fs ! 0) = Some bA \<and> knownBackend (?fs ! 1) = Some bB
         \<and> recordsMaxJobs bA (?cfg(''max_jobs'' \<mapsto> py_str maxJobs)) = Inr hA
         \<and> recordsMaxJobs bB ((afterConstruction bA (?cfg(''max_jobs'' \<mapsto> py_str maxJobs)))
                     (''max_jobs'' := ?cfg ''max_jobs'')) = Inr hB
         \<and> h = CombinedBatchSystem hA hB p"
    by (rule hybrid_constructors_max_jobs
          [where s = "''singleMachine parasol 1000000 5''", OF _ _ _ L])
       (simp_all add: configWith_def py_split_parasol_second)
  then obtain maxJobs bA bB hA hB p where
    j: "py_int ''5'' = Inr maxJobs"
    and kA: "knownBackend ''singleMachine'' = Some bA"
    and kB: "knownBackend ''parasol'' = Some bB"
    and mA: "recordsMaxJobs bA (?cfg(''max_jobs'' \<mapsto> py_str maxJobs)) = Inr hA"
    and mB: "recordsMaxJobs bB ((afterConstruction bA (?cfg(''max_jobs'' \<mapsto> py_str maxJobs)))
                     (''max_jobs'' := ?cfg ''max_jobs'')) = Inr hB"
    and h: "h = CombinedBatchSystem hA hB p"
    by auto
  from j have mj: "maxJobs = 5" by (simp add: py_int_5)
  from kA have bA: "bA = SingleMachineBatchSystem" by (simp add: knownBackend_def)
  from kB have bB: "bB = ParasolBatchSystem" by (simp add: knownBackend_def)
  from mA have hA: "hA = (SingleMachineBatchSystem, Some ''5'')"
    by (simp add: recordsMaxJobs_def mj bA py_str_5)
  from mB have hB: "hB = (ParasolBatchSystem, Some ''7'')"
    by (simp add: recordsMaxJobs_def bB configWith_def)
  show ?thesis
    by (simp add: L returned_def h hA hB)
qed

text \<open>
  C2 as stated fails for three fields: the configuration holds \<open>max_jobs = 7\<close>, and
  backend A is constructed while \<open>max_jobs\<close> holds \<^verbatim>\<open>str(sys.maxint)\<close>.
\<close>

theorem three_field_hybrid_counterexample:
  "configWith ''singleMachine singleMachine 1000000'' ''max_jobs'' = Some ''7''
   \<and> map_option backendA (returned (loadTheBatchSystem recordsMaxJobs maxint64
       (configWith ''singleMachine singleMachine 1000000'')))
     = Some (SingleMachineBatchSystem, Some ''9223372036854775807'')
   \<and> map_option backendB (returned (loadTheBatchSystem recordsMaxJobs maxint64
       (configWith ''singleMachine singleMachine 1000000'')))
     = Some (SingleMachineBatchSystem, Some ''7'')"
  by (simp add: example_simps returned_def recordsMaxJobs_def)

section \<open>The routing predicate\<close>

lemma num_le_int_finite:
  "num_le (PInt m) (PFloat (Finite sg q)) = (of_int m \<le> signed sg q)"
  by (simp add: num_le_def)

text \<open>
  C3. A hybrid handle built from a backend string whose third field converts to the float
  \<open>T\<close> has as backend A the handle that the constructor of the first name returned (on
  the configuration with \<open>max_jobs\<close> overwritten), as backend B the handle that the
  constructor of the second name returned (on the configuration with \<open>max_jobs\<close> written
  back), and as predicate \<open>memory <= T\<close>, whatever the command and the cpu count. So a
  submission is routed to the backend of the first name exactly when its memory is at most
  \<open>T\<close>, and to the backend of the second name otherwise.
\<close>

theorem hybrid_routes_by_memory_threshold:
  assumes "config ''batch_system'' = Some s"
    and "fs = py_split s"
    and "length fs = 3 \<or> length fs = 4"
    and "loadTheBatchSystem mk maxint config = (config', Inr h)"
  shows "\<exists>T maxJobs bA bB hA hB.
           py_float (fs ! 2) = Inr T
         \<and> (if length fs = 4 then py_int (fs ! 3) = Inr maxJobs else maxJobs = maxint)
         \<and> knownBackend (fs ! 0) = Some bA \<and> knownBackend (fs ! 1) = Some bB
         \<and> mk bA (config(''max_jobs'' \<mapsto> py_str maxJobs)) = Inr hA
         \<and> mk bB ((afterConstruction bA (config(''max_jobs'' \<mapsto> py_str maxJobs)))
                     (''max_jobs'' := config ''max_jobs'')) = Inr hB
         \<and> h = CombinedBatchSystem hA hB (\<lambda>command memory cpu. num_le memory (PFloat T))
         \<and> (\<forall>command memory cpu.
               route h command memory cpu = (if num_le memory (PFloat T) then hA else hB))"
proof -
  from hybrid_success [OF assms]
  obtain T maxJobs old bA bB hA hB where
    T: "py_float (fs ! 2) = Inr T"
    and j: "if length fs = 4 then py_int (fs ! 3) = Inr maxJobs else maxJobs = maxint"
    and old: "config ''max_jobs'' = Some old"
    and kA: "knownBackend (fs ! 0) = Some bA" and kB: "knownBackend (fs ! 1) = Some bB"
    and mA: "mk bA (config(''max_jobs'' \<mapsto> py_str maxJobs)) = Inr hA"
    and mB: "mk bB ((afterConstruction bA (config(''max_jobs'' \<mapsto> py_str maxJobs)))
                     (''max_jobs'' \<mapsto> old)) = Inr hB"
    and h: "h = CombinedBatchSystem hA hB (\<lambda>command memory cpu. num_le memory (PFloat T))"
    by blast
  from mB old
  have mB': "mk bB ((afterConstruction bA (config(''max_jobs'' \<mapsto> py_str maxJobs)))
                 (''max_jobs'' := config ''max_jobs'')) = Inr hB"
    by simp
  have "\<forall>command memory cpu.
           route h command memory cpu = (if num_le memory (PFloat T) then hA else hB)"
    by (simp add: h)
  with T j kA kB mA mB' h show ?thesis by blast
qed

text \<open>
  The theorem at the backend string \<open>singleMachine singleMachine 1000000 5\<close> and a
  configuration with \<open>max_jobs = 7\<close>, with constructors that return the class they
  construct and the \<open>max_jobs\<close> they read, which tells the two single-machine backends
  apart: backend A has read 5 and backend B has read 7. A submission of 500000 bytes goes
  to backend A, one of 2000000 bytes to backend B, and one of exactly 1000000 bytes to
  backend A.
\<close>

theorem hybrid_routes_witness:
  "map_option (\<lambda>h. (route h ''job'' (PInt 500000) (PInt 1),
                     route h ''job'' (PInt 2000000) (PInt 1),
                     route h ''job'' (PInt 1000000) (PInt 1)))
     (returned (loadTheBatchSystem recordsMaxJobs maxint64
        (configWith ''singleMachine singleMachine 1000000 5'')))
   = Some ((SingleMachineBatchSystem, Some ''5''),
           (SingleMachineBatchSystem, Some ''7''),
           (SingleMachineBatchSystem, Some ''5''))"
proof -
  let ?cfg = "configWith ''singleMachine singleMachine 1000000 5''"
  let ?fs = "[''singleMachine'', ''singleMachine'', ''1000000'', ''5'']"
  obtain c h where L: "loadTheBatchSystem recordsMaxJobs maxint64 ?cfg = (c, Inr h)"
    by (simp add: example_simps recordsMaxJobs_def)
  have "\<exists>T maxJobs bA bB hA hB.
           py_float (?fs ! 2) = Inr T
         \<and> (if length ?fs = 4 then py_int (?fs ! 3) = Inr maxJobs else maxJobs = maxint64)
         \<and> knownBackend (?fs ! 0) = Some bA \<and> knownBackend (?fs ! 1) = Some bB
         \<and> recordsMaxJobs bA (?cfg(''max_jobs'' \<mapsto> py_str maxJobs)) = Inr hA
         \<and> recordsMaxJobs bB ((afterConstruction bA (?cfg(''max_jobs'' \<mapsto> py_str maxJobs)))
                     (''max_jobs'' := ?cfg ''max_jobs'')) = Inr hB
         \<and> h = CombinedBatchSystem hA hB (\<lambda>command memory cpu. num_le memory (PFloat T))
         \<and> (\<forall>command memory cpu.
               route h command memory cpu = (if num_le memory (PFloat T) then hA else hB))"
    by (rule hybrid_routes_by_memory_threshold
          [where s = "''singleMachine singleMachine 1000000 5''", OF _ _ _ L])
       (simp_all add: configWith_def py_split_four)
  then obtain T maxJobs bA bB hA hB where
    T: "py_float ''1000000'' = Inr T"
    and j: "py_int ''5'' = Inr maxJobs"
    and kA: "knownBackend ''singleMachine'' = Some bA"
    and kB: "knownBackend ''singleMachine'' = Some bB"
    and mA: "recordsMaxJobs bA (?cfg(''max_jobs'' \<mapsto> py_str maxJobs)) = Inr hA"
    and mB: "recordsMaxJobs bB ((afterConstruction bA (?cfg(''max_jobs'' \<mapsto> py_str maxJobs)))
                     (''max_jobs'' := ?cfg ''max_jobs'')) = Inr hB"
    and r: "\<And>command memory cpu.
              route h command memory cpu = (if num_le memory (PFloat T) then hA else hB)"
    by auto
  from T have T': "T = Finite False 1000000"
    by (simp add: py_float_1000000)
  from j have mj: "maxJobs = 5"
    by (simp add: py_int_5)
  from kA have bA: "bA = SingleMachineBatchSystem"
    by (simp add: knownBackend_def)
  from kB have bB: "bB = SingleMachineBatchSystem"
    by (simp add: knownBackend_def)
  from mA have hA: "hA = (SingleMachineBatchSystem, Some ''5'')"
    by (simp add: recordsMaxJobs_def mj bA py_str_5)
  from mB have hB: "hB = (SingleMachineBatchSystem, Some ''7'')"
    by (simp add: recordsMaxJobs_def bB configWith_def)
  have "route h ''job'' (PInt 500000) (PInt 1) = (SingleMachineBatchSystem, Some ''5'')"
    by (simp add: r T' hA num_le_int_finite)
  moreover have "route h ''job'' (PInt 2000000) (PInt 1) = (SingleMachineBatchSystem, Some ''7'')"
    by (simp add: r T' hB num_le_int_finite)
  moreover have "route h ''job'' (PInt 1000000) (PInt 1) = (SingleMachineBatchSystem, Some ''5'')"
    by (simp add: r T' hA num_le_int_finite)
  ultimately show ?thesis
    by (simp add: L returned_def)
qed

section \<open>Backend strings that are refused\<close>

text \<open>
  C5. When the backend string is neither one of the known names nor a well-formed hybrid
  specification, \<open>loadTheBatchSystem\<close> raises, whatever the constructors do, and so returns
  no handle. This covers a wrong number of fields, a threshold that is not a number, an
  override that is not an integer, and a hybrid one of whose names is not known.
\<close>

theorem unrecognised_backend_fails:
  assumes "config ''batch_system'' = Some s"
    and "knownBackend s = None"
    and "\<not> wellFormedHybrid s"
  shows "(\<exists>e. snd (loadTheBatchSystem mk maxint config) = Inl e)
         \<and> returned (loadTheBatchSystem mk maxint config) = None"
proof -
  have "\<exists>e. snd (loadTheBatchSystem mk maxint config) = Inl e"
    using assms unfolding loadTheBatchSystem_def wellFormedHybrid_def
    by (auto simp: batchSystemConstructionFn_table Let_def
        split: sum.splits option.splits prod.splits)
  then show ?thesis
    by (auto simp: returned_def)
qed

lemma py_split_refused:
  "py_split ''quantumCluster'' = [''quantumCluster'']"
  "py_split ''a b notanumber'' = [''a'', ''b'', ''notanumber'']"
  "py_split ''a b 100 x y'' = [''a'', ''b'', ''100'', ''x'', ''y'']"
  "py_split ''singleMachine quantumCluster 100'' = [''singleMachine'', ''quantumCluster'', ''100'']"
  by (simp_all add: py_split_def isspace_def)

lemma py_float_notanumber: "py_float ''notanumber'' = Inl (ValueError ''notanumber'')"
  by (simp add: eval_simps)

lemma py_float_100: "py_float ''100'' = Inr (Finite False 100)"
  by (simp add: eval_simps)

text \<open>
  The theorem at the four backend strings of the claim: an unknown name and a string of
  five fields raise \<open>RuntimeError\<close>, the threshold \<open>notanumber\<close> raises \<open>ValueError\<close>, and a
  hybrid with one unknown name raises \<open>RuntimeError\<close> after both constructions.
\<close>

theorem unrecognised_backend_fails_witness:
  "snd (loadTheBatchSystem alwaysBuilds maxint64 (configWith ''quantumCluster''))
     = Inl (RuntimeError ''Unrecognised batch system: quantumCluster'')
   \<and> snd (loadTheBatchSystem alwaysBuilds maxint64 (configWith ''a b notanumber''))
     = Inl (ValueError ''notanumber'')
   \<and> snd (loadTheBatchSystem alwaysBuilds maxint64 (configWith ''a b 100 x y''))
     = Inl (RuntimeError ''Unrecognised batch system: a b 100 x y'')
   \<and> snd (loadTheBatchSystem alwaysBuilds maxint64
        (configWith ''singleMachine quantumCluster 100''))
     = Inl (RuntimeError ''Unrecognised batch system: singleMachine quantumCluster 100'')
   \<and> returned (loadTheBatchSystem alwaysBuilds maxint64 (configWith ''quantumCluster'')) = None
   \<and> returned (loadTheBatchSystem alwaysBuilds maxint64 (configWith ''a b notanumber'')) = None
   \<and> returned (loadTheBatchSystem alwaysBuilds maxint64 (configWith ''a b 100 x y'')) = None
   \<and> returned (loadTheBatchSystem alwaysBuilds maxint64
        (configWith ''singleMachine quantumCluster 100'')) = None"
proof -
  have 1: "returned (loadTheBatchSystem alwaysBuilds maxint64 (configWith ''quantumCluster'')) = None"
    using unrecognised_backend_fails
      [of "configWith ''quantumCluster''" "''quantumCluster''" alwaysBuilds maxint64]
    by (simp add: configWith_def knownBackend_def wellFormedHybrid_def py_split_refused)
  have 2: "returned (loadTheBatchSystem alwaysBuilds maxint64 (configWith ''a b notanumber'')) = None"
    using unrecognised_backend_fails
      [of "configWith ''a b notanumber''" "''a b notanumber''" alwaysBuilds maxint64]
    by (simp add: configWith_def knownBackend_def wellFormedHybrid_def py_split_refused
        py_float_notanumber)
  have 3: "returned (loadTheBatchSystem alwaysBuilds maxint64 (configWith ''a b 100 x y'')) = None"
    using unrecognised_backend_fails
      [of "configWith ''a b 100 x y''" "''a b 100 x y''" alwaysBuilds maxint64]
    by (simp add: configWith_def knownBackend_def wellFormedHybrid_def py_split_refused)
  have 4: "returned (loadTheBatchSystem alwaysBuilds maxint64
        (configWith ''singleMachine quantumCluster 100'')) = None"
    using unrecognised_backend_fails
      [of "configWith ''singleMachine quantumCluster 100''"
          "''singleMachine quantumCluster 100''" alwaysBuilds maxint64]
    by (simp add: configWith_def knownBackend_def wellFormedHybrid_def py_split_refused)
  have 5: "snd (loadTheBatchSystem alwaysBuilds maxint64 (configWith ''quantumCluster''))
     = Inl (RuntimeError ''Unrecognised batch system: quantumCluster'')"
    by (simp add: loadTheBatchSystem_def batchSystemConstructionFn_table knownBackend_def
        configWith_def py_split_refused)
  have 6: "snd (loadTheBatchSystem alwaysBuilds maxint64 (configWith ''a b notanumber''))
     = Inl (ValueError ''notanumber'')"
    by (simp add: loadTheBatchSystem_def batchSystemConstructionFn_table knownBackend_def
        configWith_def py_split_refused py_float_notanumber)
  have 7: "snd (loadTheBatchSystem alwaysBuilds maxint64 (configWith ''a b 100 x y''))
     = Inl (RuntimeError ''Unrecognised batch system: a b 100 x y'')"
    by (simp add: loadTheBatchSystem_def batchSystemConstructionFn_table knownBackend_def
        configWith_def py_split_refused)
  have 8: "snd (loadTheBatchSystem alwaysBuilds maxint64
        (configWith ''singleMachine quantumCluster 100''))
     = Inl (RuntimeError ''Unrecognised batch system: singleMachine quantumCluster 100'')"
    by (simp add: loadTheBatchSystem_def batchSystemConstructionFn_table knownBackend_def
        afterConstruction_def configWith_def py_split_refused py_float_100 alwaysBuilds_def)
  from 1 2 3 4 5 6 7 8 show ?thesis by blast
qed

section \<open>Resolution of a single name\<close>

text \<open>
  C9, as amended. A single name is resolved by exact, case-sensitive comparison with the
  thirteen spellings of \<open>knownNames\<close>. A backend string of one field that is one of them
  constructs the backend of that name; any other string of at most one field, a different
  capitalisation of a known name included, raises \<open>RuntimeError\<close> as unrecognised.
\<close>

theorem single_name_exact_match:
  assumes "config ''batch_system'' = Some s"
    and "length (py_split s) \<le> 1"
  shows "(knownBackend s \<noteq> None \<longleftrightarrow> s \<in> set knownNames)
         \<and> loadTheBatchSystem mk maxint config =
             (case knownBackend s of
                None \<Rightarrow> (config, Inl (RuntimeError (''Unrecognised batch system: '' @ s)))
              | Some b \<Rightarrow>
                  (case mk b config of
                     Inl e \<Rightarrow> (config, Inl e)
                   | Inr h \<Rightarrow> (afterConstruction b config, Inr (Single h))))"
  using assms knownBackend_iff [of s] unfolding loadTheBatchSystem_def
  by (auto simp: batchSystemConstructionFn_table Let_def split: sum.splits option.splits)

lemma py_split_names:
  "py_split ''torque'' = [''torque'']"
  "py_split ''TORQUE'' = [''TORQUE'']"
  by (simp_all add: py_split_def isspace_def)

text \<open>The theorem at a known spelling and at another capitalisation of it.\<close>

theorem single_name_exact_match_witness:
  "loadTheBatchSystem alwaysBuilds maxint64 (configWith ''torque'')
     = (configWith ''torque'', Inr (Single TorqueBatchSystem))
   \<and> loadTheBatchSystem alwaysBuilds maxint64 (configWith ''TORQUE'')
     = (configWith ''TORQUE'', Inl (RuntimeError ''Unrecognised batch system: TORQUE''))"
proof -
  have 1: "loadTheBatchSystem alwaysBuilds maxint64 (configWith ''torque'')
     = (configWith ''torque'', Inr (Single TorqueBatchSystem))"
    using single_name_exact_match [of "configWith ''torque''" "''torque''" alwaysBuilds maxint64]
    by (simp add: configWith_def py_split_names knownBackend_def alwaysBuilds_def
        afterConstruction_def)
  have 2: "loadTheBatchSystem alwaysBuilds maxint64 (configWith ''TORQUE'')
     = (configWith ''TORQUE'', Inl (RuntimeError ''Unrecognised batch system: TORQUE''))"
    using single_name_exact_match [of "configWith ''TORQUE''" "''TORQUE''" alwaysBuilds maxint64]
    by (simp add: configWith_def py_split_names knownBackend_def)
  from 1 2 show ?thesis by blast
qed

text \<open>
  C9 as stated fails: \<open>singleMachine\<close> and \<open>parasol\<close> construct their backends, while the
  case variants \<open>SINGLEMACHINE\<close> and \<open>Parasol\<close> are refused as unrecognised.
\<close>

theorem case_variant_counterexample:
  "snd (loadTheBatchSystem alwaysBuilds maxint64 (configWith ''singleMachine''))
     = Inr (Single SingleMachineBatchSystem)
   \<and> snd (loadTheBatchSystem alwaysBuilds maxint64 (configWith ''SINGLEMACHINE''))
     = Inl (RuntimeError ''Unrecognised batch system: SINGLEMACHINE'')
   \<and> snd (loadTheBatchSystem alwaysBuilds maxint64 (configWith ''parasol''))
     = Inr (Single ParasolBatchSystem)
   \<and> snd (loadTheBatchSystem alwaysBuilds maxint64 (configWith ''Parasol''))
     = Inl (RuntimeError ''Unrecognised batch system: Parasol'')"
  by (simp add: loadTheBatchSystem_def batchSystemConstructionFn_table knownBackend_def
      afterConstruction_def configWith_def alwaysBuilds_def py_split_def isspace_def)

lemma num_eq_maxint64: "num_eq (PInt maxint64) (PInt maxint64)"
  by (simp add: num_eq_def num_le_def)

lemma num_eq_2_maxint64: "\<not> num_eq (PInt 2) (PInt maxint64)"
  by (simp add: num_eq_def num_le_def maxint64_def)

lemma num_eq_4096_maxint64: "\<not> num_eq (PInt 4096) (PInt maxint64)"
  by (simp add: num_eq_def num_le_def maxint64_def)

lemma py_float_1073741824: "py_float ''1073741824'' = Inr (Finite False 1073741824)"
  by (simp add: eval_simps)

lemma py_float_2: "py_float ''2'' = Inr (Finite False 2)"
  by (simp add: eval_simps)

lemma py_int_4: "py_int ''4'' = Inr 4"
  by (simp add: eval_simps)

section \<open>The first job\<close>

text \<open>
  C10. In \<open>createFirstJob\<close> a memory argument equal to \<^verbatim>\<open>sys.maxint\<close> has the effect of an
  omitted one, and so has a cpu argument equal to \<^verbatim>\<open>sys.maxint\<close>. When the job is
  written and the memory argument was omitted or \<^verbatim>\<open>sys.maxint\<close>, the configuration has a
  field \<open>default_memory\<close> and the memory of the job is the float that the string of that
  field converts to; otherwise the memory of the job is the argument itself. Likewise for
  the cpu count and the field \<open>default_cpu\<close>.
\<close>

theorem maxint_argument_means_default:
  "(num_eq m (PInt (sys_maxint P)) \<longrightarrow>
      createFirstJob P command config (Some m) cpu w
        = createFirstJob P command config None cpu w)
   \<and> (num_eq c (PInt (sys_maxint P)) \<longrightarrow>
      createFirstJob P command config memory (Some c) w
        = createFirstJob P command config memory None w)
   \<and> (createFirstJob P command config memory cpu w = (w', Inr u) \<longrightarrow>
      (\<exists>job. jobRecords w' = jobRecords w @ [job]
         \<and> (if memory = None \<or> num_eq (the memory) (PInt (sys_maxint P))
             then \<exists>s f. config ''default_memory'' = Some s \<and> py_float s = Inr f
                        \<and> jobMemory job = PFloat f
             else memory = Some (jobMemory job))
         \<and> (if cpu = None \<or> num_eq (the cpu) (PInt (sys_maxint P))
             then \<exists>s f. config ''default_cpu'' = Some s \<and> py_float s = Inr f
                        \<and> jobCpu job = PFloat f
             else cpu = Some (jobCpu job))))"
proof (intro conjI impI)
  assume "num_eq m (PInt (sys_maxint P))"
  then show "createFirstJob P command config (Some m) cpu w
        = createFirstJob P command config None cpu w"
    by (simp add: createFirstJob_def firstJob_def)
next
  assume "num_eq c (PInt (sys_maxint P))"
  then show "createFirstJob P command config memory (Some c) w
        = createFirstJob P command config memory None w"
    by (simp add: createFirstJob_def firstJob_def)
next
  assume a: "createFirstJob P command config memory cpu w = (w', Inr u)"
  then obtain job where j: "firstJob P command config memory cpu = Inr job"
    and w': "w' = w\<lparr>jobRecords := jobRecords w @ [job]\<rparr>"
    by (auto simp: createFirstJob_def split: sum.splits)
  from j have
    "(if memory = None \<or> num_eq (the memory) (PInt (sys_maxint P))
      then \<exists>s f. config ''default_memory'' = Some s \<and> py_float s = Inr f
                 \<and> jobMemory job = PFloat f
      else memory = Some (jobMemory job))
     \<and> (if cpu = None \<or> num_eq (the cpu) (PInt (sys_maxint P))
        then \<exists>s f. config ''default_cpu'' = Some s \<and> py_float s = Inr f
                   \<and> jobCpu job = PFloat f
        else cpu = Some (jobCpu job))"
    by (auto simp: firstJob_def bind_def configFloat_def map_sum_def
        split: sum.splits option.splits if_splits)
  with w' show "\<exists>job. jobRecords w' = jobRecords w @ [job]
         \<and> (if memory = None \<or> num_eq (the memory) (PInt (sys_maxint P))
             then \<exists>s f. config ''default_memory'' = Some s \<and> py_float s = Inr f
                        \<and> jobMemory job = PFloat f
             else memory = Some (jobMemory job))
         \<and> (if cpu = None \<or> num_eq (the cpu) (PInt (sys_maxint P))
             then \<exists>s f. config ''default_cpu'' = Some s \<and> py_float s = Inr f
                        \<and> jobCpu job = PFloat f
             else cpu = Some (jobCpu job))"
    by auto
qed

text \<open>
  The theorem at a configuration with a default memory of 1 GiB and two cpus by default.
  A memory argument of \<^verbatim>\<open>sys.maxint\<close> with a cpu argument of 2 gives a job with the memory
  \<open>1073741824.0\<close> of the configuration and the 2 cpus of the argument; a memory argument
  of 4096 with a cpu argument of \<^verbatim>\<open>sys.maxint\<close> gives a job with the 4096 of the argument
  and the \<open>2.0\<close> cpus of the configuration.
\<close>

theorem maxint_argument_means_default_witness:
  "createFirstJob examplePlatform ''echo hi'' exampleConfig
       (Some (PInt maxint64)) (Some (PInt 2)) emptyWorld
     = createFirstJob examplePlatform ''echo hi'' exampleConfig None (Some (PInt 2)) emptyWorld
   \<and> createFirstJob examplePlatform ''echo hi'' exampleConfig
       (Some (PInt 4096)) (Some (PInt maxint64)) emptyWorld
     = createFirstJob examplePlatform ''echo hi'' exampleConfig (Some (PInt 4096)) None emptyWorld
   \<and> returned (createFirstJob examplePlatform ''echo hi'' exampleConfig
       (Some (PInt maxint64)) (Some (PInt 2)) emptyWorld) = Some ()
   \<and> map (\<lambda>job. (jobMemory job, jobCpu job))
       (jobRecords (fst (createFirstJob examplePlatform ''echo hi'' exampleConfig
          (Some (PInt maxint64)) (Some (PInt 2)) emptyWorld)))
     = [(PFloat (Finite False 1073741824), PInt 2)]
   \<and> returned (createFirstJob examplePlatform ''echo hi'' exampleConfig
       (Some (PInt 4096)) (Some (PInt maxint64)) emptyWorld) = Some ()
   \<and> map (\<lambda>job. (jobMemory job, jobCpu job))
       (jobRecords (fst (createFirstJob examplePlatform ''echo hi'' exampleConfig
          (Some (PInt 4096)) (Some (PInt maxint64)) emptyWorld)))
     = [(PInt 4096, PFloat (Finite False 2))]"
proof -
  let ?P = "examplePlatform"
  let ?run = "\<lambda>memory cpu. createFirstJob ?P ''echo hi'' exampleConfig memory cpu emptyWorld"
  let ?w1 = "fst (?run (Some (PInt maxint64)) (Some (PInt 2)))"
  let ?w2 = "fst (?run (Some (PInt 4096)) (Some (PInt maxint64)))"
  note claim = maxint_argument_means_default
  have m: "num_eq (PInt maxint64) (PInt (sys_maxint ?P))"
    by (simp add: examplePlatform_def num_eq_maxint64)
  have n2: "\<not> num_eq (PInt 2) (PInt (sys_maxint ?P))"
    by (simp add: examplePlatform_def num_eq_2_maxint64)
  have n4096: "\<not> num_eq (PInt 4096) (PInt (sys_maxint ?P))"
    by (simp add: examplePlatform_def num_eq_4096_maxint64)
  have dm: "exampleConfig ''default_memory'' = Some ''1073741824''"
    and dc: "exampleConfig ''default_cpu'' = Some ''2''"
    by (simp_all add: exampleConfig_def)
  have 1: "?run (Some (PInt maxint64)) (Some (PInt 2)) = ?run None (Some (PInt 2))"
    using claim [of "PInt maxint64" ?P "''echo hi''" exampleConfig
        "Some (PInt 2)" emptyWorld] m
    by blast
  have 2: "?run (Some (PInt 4096)) (Some (PInt maxint64)) = ?run (Some (PInt 4096)) None"
    using claim [of _ ?P "''echo hi''" exampleConfig _ emptyWorld
        "PInt maxint64" "Some (PInt 4096)"] m
    by blast
  have r1: "?run (Some (PInt maxint64)) (Some (PInt 2)) = (?w1, Inr ())"
    by (simp add: createFirstJob_def firstJob_def bind_def configFloat_def configInt_def
        exampleConfig_def examplePlatform_def num_eq_maxint64 num_eq_2_maxint64
        py_float_1073741824 py_int_4)
  have r2: "?run (Some (PInt 4096)) (Some (PInt maxint64)) = (?w2, Inr ())"
    by (simp add: createFirstJob_def firstJob_def bind_def configFloat_def configInt_def
        exampleConfig_def examplePlatform_def num_eq_maxint64 num_eq_4096_maxint64
        py_float_2 py_int_4)
  have "\<exists>job. jobRecords ?w1 = jobRecords emptyWorld @ [job]
         \<and> (if Some (PInt maxint64) = None
                \<or> num_eq (the (Some (PInt maxint64))) (PInt (sys_maxint ?P))
             then \<exists>s f. exampleConfig ''default_memory'' = Some s \<and> py_float s = Inr f
                        \<and> jobMemory job = PFloat f
             else Some (PInt maxint64) = Some (jobMemory job))
         \<and> (if Some (PInt 2) = None \<or> num_eq (the (Some (PInt 2))) (PInt (sys_maxint ?P))
             then \<exists>s f. exampleConfig ''default_cpu'' = Some s \<and> py_float s = Inr f
                        \<and> jobCpu job = PFloat f
             else Some (PInt 2) = Some (jobCpu job))"
    using claim [of _ ?P "''echo hi''" exampleConfig "Some (PInt 2)" emptyWorld
        _ "Some (PInt maxint64)" ?w1 "()"] r1
    by blast
  with m n2 obtain job1 where j1: "jobRecords ?w1 = [job1]"
    and "\<exists>s f. exampleConfig ''default_memory'' = Some s \<and> py_float s = Inr f
                \<and> jobMemory job1 = PFloat f"
    and c1: "jobCpu job1 = PInt 2"
    by (auto simp: emptyWorld_def)
  then have m1: "jobMemory job1 = PFloat (Finite False 1073741824)"
    by (auto simp: dm py_float_1073741824)
  have "\<exists>job. jobRecords ?w2 = jobRecords emptyWorld @ [job]
         \<and> (if Some (PInt 4096) = None
                \<or> num_eq (the (Some (PInt 4096))) (PInt (sys_maxint ?P))
             then \<exists>s f. exampleConfig ''default_memory'' = Some s \<and> py_float s = Inr f
                        \<and> jobMemory job = PFloat f
             else Some (PInt 4096) = Some (jobMemory job))
         \<and> (if Some (PInt maxint64) = None
                \<or> num_eq (the (Some (PInt maxint64))) (PInt (sys_maxint ?P))
             then \<exists>s f. exampleConfig ''default_cpu'' = Some s \<and> py_float s = Inr f
                        \<and> jobCpu job = PFloat f
             else Some (PInt maxint64) = Some (jobCpu job))"
    using claim [of _ ?P "''echo hi''" exampleConfig "Some (PInt maxint64)" emptyWorld
        _ "Some (PInt 4096)" ?w2 "()"] r2
    by blast
  with m n4096 obtain job2 where j2: "jobRecords ?w2 = [job2]"
    and m2: "jobMemory job2 = PInt 4096"
    and "\<exists>s f. exampleConfig ''default_cpu'' = Some s \<and> py_float s = Inr f
                \<and> jobCpu job2 = PFloat f"
    by (auto simp: emptyWorld_def)
  then have c2: "jobCpu job2 = PFloat (Finite False 2)"
    by (auto simp: dc py_float_2)
  have 3: "returned (?run (Some (PInt maxint64)) (Some (PInt 2))) = Some ()"
    by (subst r1) (simp add: returned_def)
  have 4: "returned (?run (Some (PInt 4096)) (Some (PInt maxint64))) = Some ()"
    by (subst r2) (simp add: returned_def)
  have 5: "map (\<lambda>job. (jobMemory job, jobCpu job)) (jobRecords ?w1)
             = [(PFloat (Finite False 1073741824), PInt 2)]"
    by (simp add: j1 m1 c1)
  have 6: "map (\<lambda>job. (jobMemory job, jobCpu job)) (jobRecords ?w2)
             = [(PInt 4096, PFloat (Finite False 2))]"
    by (simp add: j2 m2 c2)
  from 1 2 3 4 5 6 show ?thesis
    by (intro conjI)
qed

section \<open>Reloading an incomplete job tree\<close>

lemma isdir_setLogging [simp]: "isdir (setLoggingFromOptions opts w) p = isdir w p"
  by (simp add: setLoggingFromOptions_def isdir_def split: option.splits)

lemma isfile_setLogging [simp]: "isfile (setLoggingFromOptions opts w) p = isfile w p"
  by (simp add: setLoggingFromOptions_def isfile_def split: option.splits)

lemma files_setLogging [simp]: "files (setLoggingFromOptions opts w) = files w"
  by (simp add: setLoggingFromOptions_def split: option.splits)

lemma jobRecords_setLogging [simp]: "jobRecords (setLoggingFromOptions opts w) = jobRecords w"
  by (simp add: setLoggingFromOptions_def split: option.splits)

text \<open>
  C4. When the job tree path of the options is an existing directory in which the
  configuration file, the environment file or the directory of jobs is missing,
  \<open>runJobTreeScript\<close> takes the reload branch and raises \<open>AssertionError\<close>: no file or
  directory is created or changed, no job is written, and nothing is returned.
\<close>

theorem incomplete_job_tree_is_refused:
  assumes "opt_jobTree opts = Some path"
    and "isdir w path"
    and "\<not> isfile w (getConfigFileName P path)
         \<or> \<not> isfile w (getEnvironmentFileName P path)
         \<or> \<not> isdir w (getJobFileDirName P path)"
  shows "runJobTreeScript P opts w = (setLoggingFromOptions opts w, Inl AssertionError)
         \<and> files (fst (runJobTreeScript P opts w)) = files w
         \<and> jobRecords (fst (runJobTreeScript P opts w)) = jobRecords w"
proof -
  have "reloadJobTree P path (setLoggingFromOptions opts w)
          = (setLoggingFromOptions opts w, Inl AssertionError)"
    using assms(3) by (auto simp: reloadJobTree_def)
  then have "runJobTreeScript P opts w = (setLoggingFromOptions opts w, Inl AssertionError)"
    using assms(1,2) by (simp add: runJobTreeScript_def Let_def)
  then show ?thesis by simp
qed

text \<open>
  The theorem at a directory that holds the configuration file only: the run raises
  \<open>AssertionError\<close> and leaves the world as it was.
\<close>

theorem incomplete_job_tree_is_refused_witness:
  "isdir configOnlyWorld ''/jt''
   \<and> isfile configOnlyWorld ''/jt/config.xml''
   \<and> runJobTreeScript examplePlatform defaultOptions configOnlyWorld
       = (configOnlyWorld, Inl AssertionError)"
proof -
  have d: "isdir configOnlyWorld ''/jt''"
    by (simp add: isdir_def configOnlyWorld_def emptyWorld_def)
  have f: "isfile configOnlyWorld ''/jt/config.xml''"
    by (simp add: isfile_def configOnlyWorld_def emptyWorld_def)
  have e: "\<not> isfile configOnlyWorld (getEnvironmentFileName examplePlatform ''/jt'')"
    by (simp add: isfile_def configOnlyWorld_def emptyWorld_def examplePlatform_def)
  have "runJobTreeScript examplePlatform defaultOptions configOnlyWorld
          = (setLoggingFromOptions defaultOptions configOnlyWorld, Inl AssertionError)"
    using incomplete_job_tree_is_refused
      [of defaultOptions "''/jt''" configOnlyWorld examplePlatform] d e
    by (simp add: defaultOptions_def)
  then have "runJobTreeScript examplePlatform defaultOptions configOnlyWorld
          = (configOnlyWorld, Inl AssertionError)"
    by (simp add: setLoggingFromOptions_def defaultOptions_def)
  with d f show ?thesis by simp
qed

section \<open>\<open>int(str(n))\<close>\<close>

lemma digit_val_digit_char: "d < 10 \<Longrightarrow> digit_val (digit_char d) = d"
  by (simp add: digit_val_def digit_char_def)

lemma isdigit_digit_char: "d < 10 \<Longrightarrow> isdigit (digit_char d)"
  by (simp add: isdigit_def digit_char_def)

lemma nat_of_digits_snoc: "nat_of_digits (ds @ [c]) = 10 * nat_of_digits ds + digit_val c"
  by (simp add: nat_of_digits_def)

lemma digits_of_nat_nonempty: "digits_of_nat n \<noteq> []"
  by (subst digits_of_nat.simps) simp

lemma digits_of_nat_isdigit: "list_all isdigit (digits_of_nat n)"
proof (induction n rule: digits_of_nat.induct)
  case (1 n)
  show ?case
  proof (cases "n < 10")
    case True
    then show ?thesis
      by (subst digits_of_nat.simps) (simp add: isdigit_digit_char)
  next
    case False
    with 1 show ?thesis
      by (subst digits_of_nat.simps) (simp add: isdigit_digit_char)
  qed
qed

lemma nat_of_digits_of_nat: "nat_of_digits (digits_of_nat n) = n"
proof (induction n rule: digits_of_nat.induct)
  case (1 n)
  show ?case
  proof (cases "n < 10")
    case True
    then show ?thesis
      by (subst digits_of_nat.simps) (simp add: nat_of_digits_def digit_val_digit_char)
  next
    case False
    with 1 show ?thesis
      by (subst digits_of_nat.simps) (simp add: nat_of_digits_snoc digit_val_digit_char)
  qed
qed

lemma isdigit_not_space: "isdigit c \<Longrightarrow> \<not> isspace c"
  by (auto simp: isdigit_def isspace_def)

lemma isdigit_not_sign: "isdigit c \<Longrightarrow> c \<noteq> CHR ''-'' \<and> c \<noteq> CHR ''+''"
  by (auto simp: isdigit_def)

lemma py_strip_id:
  assumes "s \<noteq> []" and "\<not> isspace (hd s)" and "\<not> isspace (last s)"
  shows "py_strip s = s"
proof -
  from assms(1,2) have a: "dropWhile isspace s = s"
    by (cases s) auto
  from assms(1,3) have b: "dropWhile isspace (rev s) = rev s"
    by (cases "rev s") (auto simp: last_rev [symmetric])
  show ?thesis
    by (simp add: py_strip_def a b)
qed

lemma digits_of_nat_ends:
  "isdigit (hd (digits_of_nat n))" "isdigit (last (digits_of_nat n))"
  using digits_of_nat_isdigit [of n] digits_of_nat_nonempty [of n]
  by (auto simp: list_all_iff)

lemma signed_digits_of_nat: "signed_digits (digits_of_nat n) = Some (int n)"
proof -
  obtain c r where cr: "digits_of_nat n = c # r"
    using digits_of_nat_nonempty [of n] by (cases "digits_of_nat n") auto
  with digits_of_nat_ends(1) [of n] have "c \<noteq> CHR ''-''" "c \<noteq> CHR ''+''"
    using isdigit_not_sign by auto
  then have "signed_digits (c # r) = Some (int (nat_of_digits (c # r)))"
    using digits_of_nat_isdigit [of n] cr by (simp add: signed_digits_def)
  then show ?thesis
    by (simp add: cr [symmetric] nat_of_digits_of_nat)
qed

lemma signed_digits_minus:
  "signed_digits (CHR ''-'' # digits_of_nat n) = Some (- int n)"
  using digits_of_nat_isdigit [of n] digits_of_nat_nonempty [of n]
  by (simp add: signed_digits_def nat_of_digits_of_nat)

lemma py_strip_py_str: "py_strip (py_str i) = py_str i"
proof (rule py_strip_id)
  show "py_str i \<noteq> []"
    by (simp add: py_str_def digits_of_nat_nonempty)
  show "\<not> isspace (hd (py_str i))"
    using digits_of_nat_ends(1) [of "nat i"]
    by (auto simp: py_str_def isspace_def dest: isdigit_not_space)
  show "\<not> isspace (last (py_str i))"
    using digits_of_nat_ends(2) digits_of_nat_nonempty
    by (auto simp: py_str_def dest: isdigit_not_space)
qed

text \<open>Reading back the decimal representation of an integer gives the integer.\<close>

lemma py_int_py_str: "py_int (py_str i) = Inr i"
proof (cases "i < 0")
  case True
  then show ?thesis
    unfolding py_int_def py_strip_py_str
    by (simp add: py_str_def signed_digits_minus)
next
  case False
  then show ?thesis
    unfolding py_int_def py_strip_py_str
    by (simp add: py_str_def signed_digits_of_nat)
qed

section \<open>What loading the batch system does to the configuration\<close>

lemma restore_max_jobs:
  assumes "config ''max_jobs'' = Some old"
  shows "afterConstruction bB
           ((afterConstruction bA (config(''max_jobs'' \<mapsto> x)))(''max_jobs'' \<mapsto> old))
         = (if bA = SingleMachineBatchSystem_badWorker \<or> bB = SingleMachineBatchSystem_badWorker
            then config(''try_count'' \<mapsto> ''32'') else config)"
  using assms by (auto simp: afterConstruction_def fun_eq_iff)

text \<open>
  A successful \<open>loadTheBatchSystem\<close> leaves the configuration as it was, except that the
  fault-injecting backend has set \<open>try_count\<close> to 32.
\<close>

lemma loadTheBatchSystem_config:
  assumes "config ''batch_system'' = Some s"
    and "loadTheBatchSystem mk maxint config = (config', Inr h)"
  shows "config' = (if usesAcidTest s then config(''try_count'' \<mapsto> ''32'') else config)"
proof (cases "knownBackend s")
  case (Some b)
  then have sp: "py_split s = [s]"
    by (rule knownBackend_split)
  from assms Some have "config' = afterConstruction b config"
    unfolding loadTheBatchSystem_def
    by (auto simp: batchSystemConstructionFn_table split: sum.splits)
  then show ?thesis
    using Some sp by (simp add: usesAcidTest_def afterConstruction_def)
next
  case None
  have len: "length (py_split s) = 3 \<or> length (py_split s) = 4"
    using assms None unfolding loadTheBatchSystem_def
    by (auto simp: batchSystemConstructionFn_table Let_def split: if_splits)
  from hybrid_success [OF assms(1) refl len assms(2)]
  obtain maxJobs old bA bB where
    old: "config ''max_jobs'' = Some old"
    and kA: "knownBackend (py_split s ! 0) = Some bA"
    and kB: "knownBackend (py_split s ! 1) = Some bB"
    and c: "config' = afterConstruction bB
                        ((afterConstruction bA (config(''max_jobs'' \<mapsto> py_str maxJobs)))
                           (''max_jobs'' \<mapsto> old))"
    by blast
  from c have "config' = (if bA = SingleMachineBatchSystem_badWorker
                             \<or> bB = SingleMachineBatchSystem_badWorker
                          then config(''try_count'' \<mapsto> ''32'') else config)"
    using restore_max_jobs [of config old bB bA "py_str maxJobs", OF old] by simp
  then show ?thesis
    using None len kA kB by (auto simp: usesAcidTest_def Let_def)
qed

section \<open>Creating a job tree\<close>

lemma bind_Inr: "bind m f = Inr y \<longleftrightarrow> (\<exists>x. m = Inr x \<and> f x = Inr y)"
  by (cases m) (auto simp: bind_def)

lemma jobRecords_mkdir: "mkdir p w = Inr w' \<Longrightarrow> jobRecords w' = jobRecords w"
  by (auto simp: mkdir_def split: if_splits)

lemma loggingLevel_mkdir: "mkdir p w = Inr w' \<Longrightarrow> loggingLevel w' = loggingLevel w"
  by (auto simp: mkdir_def split: if_splits)

lemma jobRecords_writeConfig: "jobRecords (fst (writeConfig P config w)) = jobRecords w"
  by (auto simp: writeConfig_def open_w_def put_def split: option.splits if_splits prod.splits)

lemma loggingLevel_writeConfig: "loggingLevel (fst (writeConfig P config w)) = loggingLevel w"
  by (auto simp: writeConfig_def open_w_def put_def split: option.splits if_splits prod.splits)

lemma jobRecords_loadEnvironment: "jobRecords (fst (loadEnvironment P config w)) = jobRecords w"
  by (auto simp: loadEnvironment_def open_w_def put_def split: option.splits if_splits)

text \<open>The fields of the configuration that \<open>createJobTree\<close> assembles.\<close>

lemma draftConfig_fields:
  assumes "draftConfig opts jt level = Inr draft"
  shows "\<exists>retry memory cpu jobs.
           py_int_of (opt_retryCount opts) = Inr retry
         \<and> py_int_of (opt_defaultMemory opts) = Inr memory
         \<and> py_int_of (opt_defaultCpu opts) = Inr cpu
         \<and> py_int_of (opt_maxJobs opts) = Inr jobs
         \<and> draft ''log_level'' = Some level
         \<and> draft ''job_tree'' = Some jt
         \<and> draft ''batch_system'' = Some (opt_batchSystem opts)
         \<and> draft ''try_count'' = Some (py_str (retry + 1))
         \<and> draft ''default_memory'' = Some (py_str memory)
         \<and> draft ''default_cpu'' = Some (py_str cpu)
         \<and> draft ''max_jobs'' = Some (py_str jobs)"
  using assms unfolding draftConfig_def bind_Inr
  by (auto simp: Let_def)

text \<open>What a successful \<open>createJobTree\<close> has done.\<close>

lemma createJobTree_success:
  assumes "createJobTree P opts path w = (w', Inr (config, b))"
  shows "\<exists>w1 w2 draft frequency.
           mkdir (abspath P path) w = Inr w1
         \<and> mkdir (getJobFileDirName P (abspath P path)) w1 = Inr w2
         \<and> draftConfig opts (abspath P path) (loggingLevel w) = Inr draft
         \<and> snd (loadTheBatchSystem (construct P) (sys_maxint P) draft) = Inr b
         \<and> rescueFrequency P opts b = Inr frequency
         \<and> config = (if usesAcidTest (opt_batchSystem opts)
                      then draft(''try_count'' \<mapsto> ''32'') else draft)
                       (''rescue_jobs_frequency'' \<mapsto> frequency)
         \<and> writeConfig P config w2 = (w', Inr ())"
proof -
  from assms obtain w1 where m1: "mkdir (abspath P path) w = Inr w1"
    by (auto simp: createJobTree_def Let_def split: sum.splits)
  from assms m1 obtain w2 where m2: "mkdir (getJobFileDirName P (abspath P path)) w1 = Inr w2"
    by (auto simp: createJobTree_def Let_def split: sum.splits)
  have lv: "loggingLevel w2 = loggingLevel w"
    using m1 m2 by (simp add: loggingLevel_mkdir)
  from assms m1 m2 obtain draft where
    d: "draftConfig opts (abspath P path) (loggingLevel w) = Inr draft"
    by (auto simp: createJobTree_def Let_def lv split: sum.splits)
  from assms m1 m2 d obtain config1 where
    l: "loadTheBatchSystem (construct P) (sys_maxint P) draft = (config1, Inr b)"
    by (auto simp: createJobTree_def Let_def lv split: sum.splits prod.splits)
  from assms m1 m2 d l obtain frequency where
    f: "rescueFrequency P opts b = Inr frequency"
    by (auto simp: createJobTree_def Let_def lv split: sum.splits prod.splits)
  from assms m1 m2 d l f have
    c: "config = config1(''rescue_jobs_frequency'' \<mapsto> frequency)"
    and wr: "writeConfig P (config1(''rescue_jobs_frequency'' \<mapsto> frequency)) w2 = (w', Inr ())"
    by (auto simp: createJobTree_def Let_def lv split: sum.splits prod.splits)
  from draftConfig_fields [OF d] have bs: "draft ''batch_system'' = Some (opt_batchSystem opts)"
    by blast
  have c1: "config1 = (if usesAcidTest (opt_batchSystem opts)
                      then draft(''try_count'' \<mapsto> ''32'') else draft)"
    by (rule loadTheBatchSystem_config [OF bs l])
  from m1 m2 d l f c wr c1 show ?thesis
    by auto
qed

lemma py_int_32: "py_int ''32'' = Inr 32"
  by (simp add: eval_simps)

text \<open>
  C8, as amended. When a run creates a job tree (the job tree path is not an existing
  directory) and reaches the main loop, it has written one job, the root job. The
  configuration holds in \<open>default_memory\<close> and \<open>default_cpu\<close> the decimal strings of the
  integers that the options \<open>defaultMemory\<close> and \<open>defaultCpu\<close> convert to, and the memory
  and the cpu count of the root job are the floats that these two strings convert to. The
  try count of the root job is the integer that the field \<open>try_count\<close> converts to: the
  retry count of the options plus one, except that it is 32 when the backend string
  constructs the fault-injecting backend, which overwrites \<open>try_count\<close>.
\<close>

theorem first_job_defaults:
  assumes "opt_jobTree opts = Some path"
    and "\<not> isdir w path"
    and "runJobTreeScript P opts w = (w', Inr (config, b))"
  shows "\<exists>job retry memory cpu m c t.
           jobRecords w' = jobRecords w @ [job]
         \<and> py_int_of (opt_defaultMemory opts) = Inr memory
         \<and> config ''default_memory'' = Some (py_str memory)
         \<and> py_float (py_str memory) = Inr m \<and> jobMemory job = PFloat m
         \<and> py_int_of (opt_defaultCpu opts) = Inr cpu
         \<and> config ''default_cpu'' = Some (py_str cpu)
         \<and> py_float (py_str cpu) = Inr c \<and> jobCpu job = PFloat c
         \<and> py_int_of (opt_retryCount opts) = Inr retry
         \<and> config ''try_count'' = Some t \<and> py_int t = Inr (jobTryCount job)
         \<and> jobTryCount job = (if usesAcidTest (opt_batchSystem opts) then 32 else retry + 1)"
proof -
  let ?w = "setLoggingFromOptions opts w"
  from assms obtain cmd where cmd: "opt_command opts = Some cmd"
    by (auto simp: runJobTreeScript_def Let_def split: option.splits)
  from assms cmd obtain w1 where
    cr: "createJobTree P opts path ?w = (w1, Inr (config, b))"
    by (auto simp: runJobTreeScript_def Let_def split: sum.splits prod.splits)
  from assms cmd cr obtain w2 where
    fj: "createFirstJob P cmd config None None w1 = (w2, Inr ())"
    and le: "loadEnvironment P config w2 = (w', Inr ())"
    by (auto simp: runJobTreeScript_def Let_def split: sum.splits prod.splits)
  from fj obtain job where j: "firstJob P cmd config None None = Inr job"
    and w2: "w2 = w1\<lparr>jobRecords := jobRecords w1 @ [job]\<rparr>"
    by (auto simp: createFirstJob_def split: sum.splits)
  from createJobTree_success [OF cr] obtain wa wb draft frequency where
    m1: "mkdir (abspath P path) ?w = Inr wa"
    and m2: "mkdir (getJobFileDirName P (abspath P path)) wa = Inr wb"
    and d: "draftConfig opts (abspath P path) (loggingLevel ?w) = Inr draft"
    and c: "config = (if usesAcidTest (opt_batchSystem opts)
                      then draft(''try_count'' \<mapsto> ''32'') else draft)
                       (''rescue_jobs_frequency'' \<mapsto> frequency)"
    and wr: "writeConfig P config wb = (w1, Inr ())"
    by blast
  have "jobRecords w1 = jobRecords (fst (writeConfig P config wb))"
    by (simp add: wr)
  then have r1: "jobRecords w1 = jobRecords w"
    using m1 m2 by (simp add: jobRecords_writeConfig jobRecords_mkdir)
  have "jobRecords w' = jobRecords (fst (loadEnvironment P config w2))"
    by (simp add: le)
  then have r: "jobRecords w' = jobRecords w @ [job]"
    by (simp add: jobRecords_loadEnvironment w2 r1)
  from draftConfig_fields [OF d] obtain retry memory cpu where
    rt: "py_int_of (opt_retryCount opts) = Inr retry"
    and dm: "py_int_of (opt_defaultMemory opts) = Inr memory"
    and dc: "py_int_of (opt_defaultCpu opts) = Inr cpu"
    and tc: "draft ''try_count'' = Some (py_str (retry + 1))"
    and fm: "draft ''default_memory'' = Some (py_str memory)"
    and fc: "draft ''default_cpu'' = Some (py_str cpu)"
    by blast
  have cm: "config ''default_memory'' = Some (py_str memory)"
    and cc: "config ''default_cpu'' = Some (py_str cpu)"
    using fm fc by (simp_all add: c)
  from j cm obtain m where m: "py_float (py_str memory) = Inr m" "jobMemory job = PFloat m"
    by (auto simp: firstJob_def bind_Inr configFloat_def map_sum_def
        split: option.splits sum.splits)
  from j cc obtain c' where c': "py_float (py_str cpu) = Inr c'" "jobCpu job = PFloat c'"
    by (auto simp: firstJob_def bind_Inr configFloat_def map_sum_def
        split: option.splits sum.splits)
  from j obtain t where t: "config ''try_count'' = Some t" "py_int t = Inr (jobTryCount job)"
    by (auto simp: firstJob_def bind_Inr configInt_def split: option.splits)
  from t c tc have "jobTryCount job = (if usesAcidTest (opt_batchSystem opts) then 32 else retry + 1)"
    by (auto simp: py_int_py_str py_int_32 split: if_splits)
  with r dm cm m dc cc c' rt t show ?thesis
    by blast
qed

section \<open>Writing and reading the configuration file\<close>

lemma writable_char_ascii: "list_all writable_char v \<Longrightarrow> is_ascii v"
  by (induction v) (auto simp: is_ascii_def writable_char_def)

lemma name_char_ascii: "list_all name_char k \<Longrightarrow> is_ascii k"
  by (induction k) (auto simp: is_ascii_def name_char_def name_start_def isdigit_def)

lemma name_start_not_brace: "name_start c \<Longrightarrow> c \<noteq> CHR ''{''"
  by (auto simp: name_start_def)

lemma xml_name_no_brace: "xml_name k \<Longrightarrow> take 1 k \<noteq> ''{''"
  by (cases k) (auto simp: xml_name_def dest: name_start_not_brace)

lemma write_attribs_plain:
  "list_all (\<lambda>(k, v). is_ascii v) kvs \<Longrightarrow>
   write_attribs out kvs = (out @ concat (map attrib_text kvs) @ '' />'', None)"
  by (induction kvs arbitrary: out) (auto simp: attrib_text_def)

lemma escape_char_no_quote: "CHR 0x22 \<notin> set (escape_char c)"
  by (simp add: escape_char_def)

lemma escape_attrib_no_quote: "CHR 0x22 \<notin> set (escape_attrib v)"
  by (induction v) (simp_all add: escape_attrib_def escape_char_no_quote)

lemma escape_attrib_Cons: "escape_attrib (c # v) = escape_char c @ escape_attrib v"
  by (simp add: escape_attrib_def)

lemma escape_attrib_Nil: "escape_attrib [] = []"
  by (simp add: escape_attrib_def)

lemma attrib_value_refs:
  "attrib_value (''&amp;'' @ r) = map_sum id ((#) CHR ''&'') (attrib_value r)"
  "attrib_value (''&lt;'' @ r) = map_sum id ((#) CHR ''<'') (attrib_value r)"
  "attrib_value (''&gt;'' @ r) = map_sum id ((#) CHR ''>'') (attrib_value r)"
  "attrib_value (''&quot;'' @ r) = map_sum id ((#) CHR 0x22) (attrib_value r)"
  "attrib_value (''&#10;'' @ r) = map_sum id ((#) CHR 0x0A) (attrib_value r)"
  by simp_all

lemma attrib_value_plain:
  assumes "c \<noteq> CHR ''&''" and "c \<noteq> CHR ''<''" and "32 \<le> (of_char c :: nat)"
    and "(of_char c :: nat) < 128"
  shows "attrib_value (c # r) = map_sum id ((#) c) (attrib_value r)"
proof -
  from assms(3) have "xml_char c" "c \<noteq> CHR 0x09" "c \<noteq> CHR 0x0A" "c \<noteq> CHR 0x0D"
    by (auto simp: xml_char_def)
  with assms(1,2,4) show ?thesis
    by simp
qed

lemma attrib_value_tab:
  "attrib_value (CHR 0x09 # r) = map_sum id ((#) CHR '' '') (attrib_value r)"
  by (simp add: xml_char_def)

lemma attrib_value_return:
  "take 1 r \<noteq> [CHR 0x0A] \<Longrightarrow>
   attrib_value (CHR 0x0D # r) = map_sum id ((#) CHR '' '') (attrib_value r)"
  by (simp add: xml_char_def)

declare attrib_value.simps [simp del]

lemma escape_attrib_no_newline: "take 1 (escape_attrib v) \<noteq> [CHR 0x0A]"
  by (cases v) (auto simp: escape_attrib_Nil escape_attrib_Cons escape_char_def)

text \<open>Reading a written value gives the value back, normalised.\<close>

lemma attrib_value_escape_char:
  assumes "writable_char c" and "take 1 r \<noteq> [CHR 0x0A]"
  shows "attrib_value (escape_char c @ r) = map_sum id ((#) (normalise_char c)) (attrib_value r)"
proof -
  consider "c = CHR ''&''" | "c = CHR ''<''" | "c = CHR ''>''" | "c = CHR 0x22"
    | "c = CHR 0x0A" | "c = CHR 0x09" | "c = CHR 0x0D"
    | "c \<noteq> CHR ''&''" "c \<noteq> CHR ''<''" "c \<noteq> CHR ''>''" "c \<noteq> CHR 0x22" "c \<noteq> CHR 0x0A"
      "c \<noteq> CHR 0x09" "c \<noteq> CHR 0x0D"
    by blast
  then show ?thesis
  proof cases
    case 1
    then show ?thesis
      using attrib_value_refs(1) [of r] by (simp add: escape_char_def normalise_char_def)
  next
    case 2
    then show ?thesis
      using attrib_value_refs(2) [of r] by (simp add: escape_char_def normalise_char_def)
  next
    case 3
    then show ?thesis
      using attrib_value_refs(3) [of r] by (simp add: escape_char_def normalise_char_def)
  next
    case 4
    then show ?thesis
      using attrib_value_refs(4) [of r] by (simp add: escape_char_def normalise_char_def)
  next
    case 5
    then show ?thesis
      using attrib_value_refs(5) [of r] by (simp add: escape_char_def normalise_char_def)
  next
    case 6
    then show ?thesis
      using attrib_value_tab [of r] by (simp add: escape_char_def normalise_char_def)
  next
    case 7
    then show ?thesis
      using attrib_value_return [OF assms(2)] by (simp add: escape_char_def normalise_char_def)
  next
    case 8
    with assms(1) have "32 \<le> (of_char c :: nat)" "(of_char c :: nat) < 128"
      by (simp_all add: writable_char_def)
    with 8 show ?thesis
      by (simp add: escape_char_def normalise_char_def attrib_value_plain)
  qed
qed

lemma attrib_value_escape:
  "list_all writable_char v \<Longrightarrow> attrib_value (escape_attrib v) = Inr (map normalise_char v)"
proof (induction v)
  case Nil
  show ?case by (simp add: escape_attrib_Nil attrib_value.simps)
next
  case (Cons c v)
  then have c: "writable_char c" and ih: "attrib_value (escape_attrib v) = Inr (map normalise_char v)"
    by simp_all
  show ?case
    using attrib_value_escape_char [OF c escape_attrib_no_newline [of v]]
    by (simp add: escape_attrib_Cons ih)
qed

lemma not_name_char_specials:
  "\<not> name_char CHR '' ''" "\<not> name_char CHR ''=''" "\<not> name_start CHR ''/''"
  "\<not> name_start CHR ''>''" "\<not> name_start CHR '' ''"
  by (simp_all add: name_char_def name_start_def isdigit_def)

lemma name_start_not_space: "name_start c \<Longrightarrow> \<not> xml_space c"
  by (auto simp: name_start_def xml_space_def)

lemma not_xml_space_specials:
  "\<not> xml_space CHR ''=''" "\<not> xml_space CHR 0x22" "\<not> xml_space CHR ''/''"
  "\<not> xml_space CHR ''<''" "xml_space CHR '' ''"
  by (simp_all add: xml_space_def)

lemma takeWhile_name:
  assumes "list_all name_char k" and "\<not> name_char c"
  shows "takeWhile name_char (k @ c # r) = k" and "dropWhile name_char (k @ c # r) = c # r"
  using assms by (induction k) auto

lemma takeWhile_value:
  assumes "CHR 0x22 \<notin> set e"
  shows "takeWhile (\<lambda>c. c \<noteq> CHR 0x22) (e @ CHR 0x22 # r) = e"
    and "dropWhile (\<lambda>c. c \<noteq> CHR 0x22) (e @ CHR 0x22 # r) = CHR 0x22 # r"
  using assms by (induction e) auto

text \<open>Reading one written attribute.\<close>

lemma read_attribs_step:
  assumes "xml_name k" and "list_all writable_char v" and "acc k = None"
  shows "read_attribs acc (attrib_text (k, v) @ rest)
           = read_attribs (acc(k \<mapsto> map normalise_char v)) rest"
proof -
  let ?e = "escape_attrib v"
  define t where "t = k @ CHR ''='' # CHR 0x22 # ?e @ CHR 0x22 # rest"
  define s where "s = attrib_text (k, v) @ rest"
  from assms(1) obtain c0 k' where k: "k = c0 # k'" and c0: "name_start c0"
    and nk: "list_all name_char k"
    by (cases k) (auto simp: xml_name_def)
  have s: "s = CHR '' '' # t"
    by (simp add: s_def t_def attrib_text_def)
  have ht: "t = c0 # (k' @ CHR ''='' # CHR 0x22 # ?e @ CHR 0x22 # rest)"
    by (simp add: t_def k)
  have ds: "dropWhile xml_space s = t"
    using name_start_not_space [OF c0] by (simp add: s ht not_xml_space_specials)
  have "c0 \<noteq> CHR ''/''" "c0 \<noteq> CHR ''>''"
    using c0 not_name_char_specials(3,4) by auto
  then have t1: "take (Suc 0) t \<noteq> ''/''" "take (Suc 0) t \<noteq> ''>''"
    by (simp_all add: ht)
  have ts: "t \<noteq> s"
    by (simp add: s)
  have tw: "takeWhile name_char t = k"
    and dw: "dropWhile name_char t = CHR ''='' # CHR 0x22 # ?e @ CHR 0x22 # rest"
    unfolding t_def by (simp_all add: takeWhile_name [OF nk not_name_char_specials(2)])
  have tv: "takeWhile (\<lambda>c. c \<noteq> CHR 0x22) (?e @ CHR 0x22 # rest) = ?e"
    and dv: "dropWhile (\<lambda>c. c \<noteq> CHR 0x22) (?e @ CHR 0x22 # rest) = CHR 0x22 # rest"
    by (simp_all add: takeWhile_value [OF escape_attrib_no_quote])
  have av: "attrib_value ?e = Inr (map normalise_char v)"
    by (rule attrib_value_escape [OF assms(2)])
  have hk: "k \<noteq> []" "name_start (hd k)"
    by (simp_all add: k c0)
  have "read_attribs acc s = read_attribs (acc(k \<mapsto> map normalise_char v)) rest"
    by (subst read_attribs.simps)
       (simp add: ds t1 ts tw dw tv dv av hk assms(3) not_xml_space_specials Let_def)
  then show ?thesis
    by (simp add: s_def)
qed

lemma read_attribs_end: "read_attribs acc '' />'' = Inr (acc, ''/>'')"
  by (subst read_attribs.simps) (simp add: xml_space_def)

lemma read_attribs_written:
  assumes "list_all (\<lambda>(k, v). xml_name k \<and> list_all writable_char v) kvs"
    and "distinct (map fst kvs)"
    and "\<forall>k \<in> set (map fst kvs). acc k = None"
  shows "read_attribs acc (concat (map attrib_text kvs) @ '' />'')
           = Inr (acc ++ map_of (read_back kvs), ''/>'')"
  using assms
proof (induction kvs arbitrary: acc)
  case Nil
  show ?case by (simp add: read_attribs_end read_back_def)
next
  case (Cons kv kvs)
  obtain k v where kv: "kv = (k, v)"
    by (cases kv)
  let ?v = "map normalise_char v"
  from Cons.prems kv have n: "xml_name k" and p: "list_all writable_char v"
    and a: "acc k = None" and notin: "k \<notin> fst ` set kvs"
    by auto
  have rest: "read_attribs (acc(k \<mapsto> ?v)) (concat (map attrib_text kvs) @ '' />'')
                = Inr ((acc(k \<mapsto> ?v)) ++ map_of (read_back kvs), ''/>'')"
    using Cons.prems notin by (intro Cons.IH) (auto simp: kv)
  have "k \<notin> fst ` set (read_back kvs)"
    using notin by (force simp: read_back_def)
  then have "map_of (read_back kvs) k = None"
    by (simp add: map_of_eq_None_iff)
  then have m: "(acc(k \<mapsto> ?v)) ++ map_of (read_back kvs)
                  = acc ++ map_of ((k, ?v) # read_back kvs)"
    by (auto simp: fun_eq_iff map_add_def split: option.splits)
  have "read_attribs acc (attrib_text (k, v) @ concat (map attrib_text kvs) @ '' />'')
          = Inr ((acc(k \<mapsto> ?v)) ++ map_of (read_back kvs), ''/>'')"
    using read_attribs_step [of k v acc "concat (map attrib_text kvs) @ '' />''", OF n p a]
    by (simp only: rest)
  then have "read_attribs acc (attrib_text (k, v) @ concat (map attrib_text kvs) @ '' />'')
          = Inr (acc ++ map_of ((k, ?v) # read_back kvs), ''/>'')"
    by (simp only: m)
  moreover have "read_back (kv # kvs) = (k, ?v) # read_back kvs"
    by (simp add: read_back_def kv)
  ultimately show ?case
    by (simp only: kv list.map concat.simps append_assoc)
qed

lemma starts_with_space:
  "\<exists>r. concat (map attrib_text kvs) @ '' />'' = CHR '' '' # r"
  by (cases kvs) (auto simp: attrib_text_def)

lemma element_end_written: "element_end ''/>'' = Some []"
  by (simp add: element_end_def)

text \<open>Reading the document of a list of attributes.\<close>

lemma xml_parse_written:
  assumes "list_all (\<lambda>(k, v). attrib_name k \<and> list_all writable_char v) kvs"
    and "distinct (map fst kvs)"
  shows "xml_parse (''<config'' @ concat (map attrib_text kvs) @ '' />'')
           = Inr (map_of (read_back kvs))"
proof -
  obtain r where r: "concat (map attrib_text kvs) @ '' />'' = CHR '' '' # r"
    using starts_with_space by blast
  define u where "u = ''config'' @ CHR '' '' # r"
  define s where "s = CHR ''<'' # u"
  from assms(1) have l: "list_all (\<lambda>(k, v). xml_name k \<and> list_all writable_char v) kvs"
    and x: "''xmlns'' \<notin> fst ` set kvs"
    by (auto simp: list_all_iff attrib_name_def)
  have nc: "list_all name_char ''config''"
    by (simp add: name_char_def name_start_def)
  have ds: "dropWhile xml_space s = s"
    by (simp add: s_def not_xml_space_specials)
  have hs: "s \<noteq> []" "hd s = CHR ''<''" "tl s = u"
    by (simp_all add: s_def)
  have tw: "takeWhile name_char u = ''config''"
    and dw: "dropWhile name_char u = CHR '' '' # r"
    unfolding u_def by (simp_all only: takeWhile_name [OF nc not_name_char_specials(1)])
  have ra: "read_attribs Map.empty (CHR '' '' # r) = Inr (map_of (read_back kvs), ''/>'')"
    using read_attribs_written [OF l assms(2), of Map.empty] by (simp add: r)
  have "''xmlns'' \<notin> fst ` set (read_back kvs)"
    using x by (force simp: read_back_def)
  then have nx: "map_of (read_back kvs) ''xmlns'' = None"
    by (simp add: map_of_eq_None_iff)
  have "xml_parse s = Inr (map_of (read_back kvs))"
    unfolding xml_parse_def
    by (simp add: ds hs tw dw ra element_end_written nx Let_def)
  then show ?thesis
    by (simp add: s_def u_def r)
qed

lemma items_keys: "finite (dom config) \<Longrightarrow> set (map fst (items config)) = dom config"
  by (simp add: items_def comp_def)

lemma distinct_items: "distinct (map fst (items config))"
  by (simp add: items_def comp_def)

lemma map_of_items: "finite (dom config) \<Longrightarrow> map_of (items config) = config"
proof
  fix k
  assume f: "finite (dom config)"
  show "map_of (items config) k = config k"
  proof (cases "config k")
    case None
    then have "k \<notin> set (map fst (items config))"
      using items_keys [OF f] by auto
    then show ?thesis
      using None by (simp add: map_of_eq_None_iff)
  next
    case (Some v)
    then have "k \<in> set (sorted_list_of_set (dom config))"
      using f by auto
    then have "(k, the (config k)) \<in> set (items config)"
      by (auto simp: items_def)
    then show ?thesis
      using distinct_items [of config] Some by simp
  qed
qed

lemma map_of_read_back: "map_of (read_back kvs) = normalised (map_of kvs)"
  by (induction kvs) (auto simp: read_back_def normalised_def fun_eq_iff)

text \<open>
  A writable configuration is written without an exception, and reading what was written
  gives the normalised configuration.
\<close>

lemma xml_write_writable:
  assumes "writable config"
  shows "xml_write config
           = (''<config'' @ concat (map attrib_text (items config)) @ '' />'', None)"
proof -
  from assms have l: "list_all (\<lambda>(k, v). attrib_name k \<and> list_all writable_char v) (items config)"
    by (simp add: writable_def)
  then have "list_all (\<lambda>(k, v). is_ascii k) (items config)"
    using name_char_ascii by (fastforce simp: list_all_iff xml_name_def attrib_name_def)
  moreover from l have "list_all (\<lambda>(k, v). is_ascii v) (items config)"
    using writable_char_ascii by (fastforce simp: list_all_iff)
  moreover from l have "\<not> list_ex (\<lambda>(k, v). take 1 k = ''{'') (items config)"
    using xml_name_no_brace by (fastforce simp: list_all_iff list_ex_iff attrib_name_def)
  ultimately show ?thesis
    by (simp add: xml_write_def write_attribs_plain)
qed

lemma xml_read_written:
  assumes "writable config"
  shows "xml_parse (fst (xml_write config)) = Inr (normalised config)"
proof -
  from assms have l: "list_all (\<lambda>(k, v). attrib_name k \<and> list_all writable_char v) (items config)"
    and f: "finite (dom config)"
    by (simp_all add: writable_def)
  show ?thesis
    using xml_parse_written [OF l distinct_items]
    by (simp add: xml_write_writable [OF assms] map_of_read_back map_of_items [OF f])
qed

lemma plain_char_writable: "plain_char c \<Longrightarrow> writable_char c \<and> normalise_char c = c"
  by (auto simp: plain_char_def writable_char_def normalise_char_def)

lemma storable_writable: "storable config \<Longrightarrow> writable config"
  using plain_char_writable by (fastforce simp: storable_def writable_def list_all_iff)

lemma storable_normalised:
  assumes "storable config"
  shows "normalised config = config"
proof
  fix k
  show "normalised config k = config k"
  proof (cases "config k")
    case None
    then show ?thesis by (simp add: normalised_def)
  next
    case (Some v)
    from assms have f: "finite (dom config)"
      and l: "list_all (\<lambda>(k, v). attrib_name k \<and> list_all plain_char v) (items config)"
      by (simp_all add: storable_def)
    from Some f have "(k, v) \<in> set (items config)"
      by (auto simp: items_def)
    with l have "list_all plain_char v"
      by (auto simp: list_all_iff)
    then have "map normalise_char v = v"
      using plain_char_writable by (induction v) auto
    then show ?thesis
      by (simp add: normalised_def Some)
  qed
qed

lemma set_items: "finite (dom config) \<Longrightarrow> set (items config) = {(k, v). config k = Some v}"
  by (auto simp: items_def)

lemma writable_iff:
  "writable config \<longleftrightarrow>
     finite (dom config)
     \<and> (\<forall>k v. config k = Some v \<longrightarrow> attrib_name k \<and> list_all writable_char v)"
  by (auto simp: writable_def list_all_iff set_items)


lemma writable_update:
  "writable config \<Longrightarrow> attrib_name k \<Longrightarrow> list_all writable_char v \<Longrightarrow> writable (config(k \<mapsto> v))"
  by (auto simp: writable_iff)





lemma attrib_name_log_level: "attrib_name ''log_level''"
  by (simp add: attrib_name_def xml_name_def name_start_def name_char_def)

section \<open>The configuration file in the workspace\<close>

text \<open>Writing a writable configuration into a workspace, and reading the file.\<close>

lemma writeConfig_writable:
  assumes "writable config"
    and "config ''job_tree'' = Some jt"
    and "openable w (getConfigFileName P jt)"
  shows "writeConfig P config w
           = (w\<lparr>files := (files w)(getConfigFileName P jt
                  \<mapsto> File (Bytes (fst (xml_write config))))\<rparr>, Inr ())"
  using assms(2,3) xml_write_writable [OF assms(1)]
  by (simp add: writeConfig_def open_w_def put_def)

lemma parse_file_written:
  assumes "writable config"
    and "files w p = Some (File (Bytes (fst (xml_write config))))"
  shows "parse_file w p = Inr (normalised config)"
  using assms(2) xml_read_written [OF assms(1)]
  by (simp add: parse_file_def)

lemma items_createdConfig:
  "items (createdConfig bs pc) =
     [(''batch_system'', bs), (''default_cpu'', ''2''), (''default_memory'', ''1073741824''),
      (''job_time'', ''30.0''), (''job_tree'', ''/jt''), (''log_level'', ''INFO''),
      (''max_job_duration'', ''9.22337203685e+18''), (''max_jobs'', ''9223372036854775807''),
      (''max_log_file_size'', ''50120''), (''max_threads'', ''4''),
      (''parasol_command'', pc), (''rescue_jobs_frequency'', ''120.0''),
      (''try_count'', ''4'')]"
  by (simp add: items_def createdConfig_def draftExample_def)

lemma finite_dom_createdConfig: "finite (dom (createdConfig bs pc))"
  by (simp add: createdConfig_def draftExample_def)

lemma attrib_name_keys:
  "attrib_name ''batch_system''" "attrib_name ''default_cpu''" "attrib_name ''default_memory''"
  "attrib_name ''job_time''" "attrib_name ''job_tree''" "attrib_name ''max_job_duration''"
  "attrib_name ''max_jobs''" "attrib_name ''max_log_file_size''" "attrib_name ''max_threads''"
  "attrib_name ''parasol_command''" "attrib_name ''rescue_jobs_frequency''"
  "attrib_name ''try_count''"
  by (simp_all add: attrib_name_def xml_name_def name_start_def name_char_def)

lemma plain_values:
  "list_all plain_char ''2''" "list_all plain_char ''1073741824''" "list_all plain_char ''30.0''"
  "list_all plain_char ''/jt''" "list_all plain_char ''INFO''"
  "list_all plain_char ''9.22337203685e+18''" "list_all plain_char ''9223372036854775807''"
  "list_all plain_char ''50120''" "list_all plain_char ''4''" "list_all plain_char ''120.0''"
  "list_all plain_char ''singleMachine''" "list_all plain_char ''parasol''"
  "list_all plain_char ''DEBUG''" "list_all plain_char ''acidTest''" "list_all plain_char ''32''"
  by (simp_all add: plain_char_def)

lemma storable_createdConfig:
  "list_all plain_char bs \<Longrightarrow> list_all plain_char pc \<Longrightarrow> storable (createdConfig bs pc)"
  by (simp add: storable_def finite_dom_createdConfig items_createdConfig attrib_name_keys
      attrib_name_log_level plain_char_def)

lemma writable_tabbedCommand: "list_all writable_char tabbedCommand"
  by (simp add: tabbedCommand_def writable_char_def)

lemma writable_createdConfig:
  "list_all writable_char bs \<Longrightarrow> list_all writable_char pc \<Longrightarrow> writable (createdConfig bs pc)"
  by (simp add: writable_def finite_dom_createdConfig items_createdConfig attrib_name_keys
      attrib_name_log_level writable_char_def)

lemma normalised_createdConfig:
  "normalised (createdConfig bs pc)
     = createdConfig (map normalise_char bs) (map normalise_char pc)"
  by (auto simp: normalised_def createdConfig_def draftExample_def fun_eq_iff normalise_char_def)

lemma normalise_tabbedCommand: "map normalise_char tabbedCommand = ''parasol -x''"
  by (simp add: tabbedCommand_def normalise_char_def)

lemma normalise_singleMachine: "map normalise_char ''singleMachine'' = ''singleMachine''"
  by (simp add: normalise_char_def)

section \<open>The round trip of the configuration file\<close>

lemma openable_example:
  "openable directoryWorld ''/jt/config.xml''"
  by (simp add: openable_def parent_exists_def dirname_def isdir_def directoryWorld_def
      emptyWorld_def)

text \<open>
  C7, as amended. For every configuration whose attribute names are XML names without a
  colon other than \<open>xmlns\<close> and whose values are made of printable ASCII characters, \<open>DEL\<close>
  and newlines, \<open>writeConfig\<close> succeeds when the configuration file can be opened for
  writing (its path is not a directory and lies in an existing directory), and reading the
  file back gives a configuration equal to the one written.
\<close>

theorem config_file_roundtrip:
  assumes "storable config"
    and "config ''job_tree'' = Some jt"
    and "openable w (getConfigFileName P jt)"
  shows "snd (writeConfig P config w) = Inr ()
         \<and> parse_file (fst (writeConfig P config w)) (getConfigFileName P jt) = Inr config"
proof -
  have wr: "writable config"
    using assms(1) by (rule storable_writable)
  have "parse_file (fst (writeConfig P config w)) (getConfigFileName P jt)
          = Inr (normalised config)"
    by (rule parse_file_written [OF wr])
       (simp add: writeConfig_writable [OF wr assms(2,3)])
  then show ?thesis
    by (simp add: writeConfig_writable [OF wr assms(2,3)] storable_normalised [OF assms(1)])
qed

text \<open>
  The theorem at the configuration of a run with the example options, written into a
  world whose directory \<open>/jt\<close> exists.
\<close>

theorem config_file_roundtrip_witness:
  "storable (createdConfig ''singleMachine'' ''parasol'')
   \<and> snd (writeConfig examplePlatform (createdConfig ''singleMachine'' ''parasol'')
        directoryWorld)
     = Inr ()
   \<and> parse_file
       (fst (writeConfig examplePlatform (createdConfig ''singleMachine'' ''parasol'')
          directoryWorld))
       ''/jt/config.xml''
     = Inr (createdConfig ''singleMachine'' ''parasol'')"
proof -
  have s: "storable (createdConfig ''singleMachine'' ''parasol'')"
    by (rule storable_createdConfig) (simp_all add: plain_char_def)
  have j: "createdConfig ''singleMachine'' ''parasol'' ''job_tree'' = Some ''/jt''"
    by (simp add: createdConfig_def draftExample_def)
  have d: "openable directoryWorld (getConfigFileName examplePlatform ''/jt'')"
    using openable_example by (simp add: examplePlatform_def)
  show ?thesis
    using config_file_roundtrip [OF s j d] s by (simp add: examplePlatform_def)
qed

text \<open>
  C7 as stated fails for a value with a tab: the configuration of a run whose parasol
  command is \<open>parasol\<close>, a tab and \<open>-x\<close> is written without an exception, and is read back
  with the command \<open>parasol -x\<close>, a space in the place of the tab.
\<close>

theorem tab_roundtrip_counterexample:
  "snd (writeConfig examplePlatform (createdConfig ''singleMachine'' tabbedCommand)
      directoryWorld)
     = Inr ()
   \<and> parse_file
       (fst (writeConfig examplePlatform (createdConfig ''singleMachine'' tabbedCommand)
          directoryWorld))
       ''/jt/config.xml''
     = Inr (createdConfig ''singleMachine'' ''parasol -x'')
   \<and> createdConfig ''singleMachine'' ''parasol -x'' ''parasol_command'' = Some ''parasol -x''
   \<and> createdConfig ''singleMachine'' tabbedCommand ''parasol_command''
     = Some (''parasol'' @ [CHR 0x09] @ ''-x'')"
proof -
  let ?c = "createdConfig ''singleMachine'' tabbedCommand"
  have wr: "writable ?c"
    by (intro writable_createdConfig writable_tabbedCommand) (simp add: writable_char_def)
  have j: "?c ''job_tree'' = Some ''/jt''"
    by (simp add: createdConfig_def draftExample_def)
  have d: "openable directoryWorld (getConfigFileName examplePlatform ''/jt'')"
    using openable_example by (simp add: examplePlatform_def)
  have w: "writeConfig examplePlatform ?c directoryWorld
             = (directoryWorld\<lparr>files := (files directoryWorld)(getConfigFileName examplePlatform ''/jt''
                  \<mapsto> File (Bytes (fst (xml_write ?c))))\<rparr>, Inr ())"
    by (rule writeConfig_writable [OF wr j d])
  have "parse_file (fst (writeConfig examplePlatform ?c directoryWorld))
          (getConfigFileName examplePlatform ''/jt'') = Inr (normalised ?c)"
    by (rule parse_file_written [OF wr]) (simp add: w)
  then have "parse_file (fst (writeConfig examplePlatform ?c directoryWorld))
          (getConfigFileName examplePlatform ''/jt'')
          = Inr (createdConfig ''singleMachine'' ''parasol -x'')"
    by (simp only: normalised_createdConfig normalise_tabbedCommand normalise_singleMachine)
  then have 2: "parse_file (fst (writeConfig examplePlatform ?c directoryWorld)) ''/jt/config.xml''
          = Inr (createdConfig ''singleMachine'' ''parasol -x'')"
    by (simp add: examplePlatform_def)
  have 1: "snd (writeConfig examplePlatform ?c directoryWorld) = Inr ()"
    by (simp only: w snd_conv)
  have 3: "createdConfig ''singleMachine'' ''parasol -x'' ''parasol_command'' = Some ''parasol -x''"
    by (simp add: createdConfig_def draftExample_def)
  have 4: "?c ''parasol_command'' = Some (''parasol'' @ [CHR 0x09] @ ''-x'')"
    by (simp add: createdConfig_def draftExample_def tabbedCommand_def)
  from 1 2 3 4 show ?thesis
    by (intro conjI)
qed

section \<open>Running the script\<close>

text \<open>The steps of \<open>createJobTree\<close> and of a run, composed.\<close>

lemma createJobTree_run:
  assumes "mkdir (abspath P path) w = Inr w1"
    and "mkdir (getJobFileDirName P (abspath P path)) w1 = Inr w2"
    and "draftConfig opts (abspath P path) (loggingLevel w2) = Inr draft"
    and "loadTheBatchSystem (construct P) (sys_maxint P) draft = (config1, Inr b)"
    and "rescueFrequency P opts b = Inr f"
    and "writeConfig P (config1(''rescue_jobs_frequency'' \<mapsto> f)) w2 = (w3, Inr ())"
  shows "createJobTree P opts path w = (w3, Inr (config1(''rescue_jobs_frequency'' \<mapsto> f), b))"
  by (simp add: createJobTree_def assms Let_def)

lemma run_create:
  assumes "opt_jobTree opts = Some path"
    and "\<not> isdir w path"
    and "opt_command opts = Some cmd"
    and "createJobTree P opts path (setLoggingFromOptions opts w) = (w1, Inr (config, b))"
    and "createFirstJob P cmd config None None w1 = (w2, Inr ())"
    and "loadEnvironment P config w2 = (w3, Inr ())"
  shows "runJobTreeScript P opts w = (w3, Inr (config, b))"
  by (simp add: runJobTreeScript_def assms Let_def)


lemma py_str_float_examples:
  "py_str_float (Finite False 9223372036854775808) = ''9.22337203685e+18''"
  "py_str_float (Finite False 30) = ''30.0''"
  "py_str_float (Finite False 120) = ''120.0''"
  by (simp_all add: py_str_float_def format_g12_def significant12_def decimal_exponent_def
      strip_zeros_def round_half_even_def digits_of_nat.simps digit_char_eval Let_def)

lemma py_float_maxint64:
  "py_float ''9223372036854775807'' = Inr (Finite False 9223372036854775808)"
  by (simp add: eval_simps)

lemma float_of_int_examples:
  "float_of_int 30 = Inr (Finite False 30)"
  "float_of_int 120 = Inr (Finite False 120)"
  by (simp_all add: float_of_int_def to_binary64_def bitlen.simps round_half_even_def Let_def)

lemma py_str_examples:
  "py_str 2 = ''2''" "py_str 4 = ''4''" "py_str 50120 = ''50120''"
  "py_str 1073741824 = ''1073741824''"
  by (simp_all add: eval_simps)

lemma py_int_1073741824: "py_int ''1073741824'' = Inr 1073741824"
  by (simp add: eval_simps)

lemma draftConfig_example:
  "draftConfig (exampleOptions bs pc) ''/jt'' ''INFO'' = Inr (draftExample bs pc)"
  by (simp add: draftConfig_def exampleOptions_def defaultOptions_def bind_def py_int_of_def
      py_float_of_def py_float_maxint64 float_of_int_examples py_str_float_examples
      py_str_examples py_int_1073741824 py_str_maxint64 draftExample_def)

lemma rescueFrequency_example:
  "rescueFrequency examplePlatform (exampleOptions bs pc) b = Inr ''120.0''"
  by (simp add: rescueFrequency_def exampleOptions_def defaultOptions_def examplePlatform_def
      bind_def py_float_of_def float_of_int_examples py_str_float_examples)

lemma py_split_single:
  "py_split ''singleMachine'' = [''singleMachine'']" "py_split ''acidTest'' = [''acidTest'']"
  by (simp_all add: py_split_def isspace_def)

lemma load_singleMachine:
  "loadTheBatchSystem alwaysBuilds maxint64 (draftExample ''singleMachine'' pc)
     = (draftExample ''singleMachine'' pc, Inr (Single SingleMachineBatchSystem))"
  by (simp add: loadTheBatchSystem_def batchSystemConstructionFn_table knownBackend_def
      afterConstruction_def alwaysBuilds_def draftExample_def)

lemma load_acidTest:
  "loadTheBatchSystem alwaysBuilds maxint64 (draftExample ''acidTest'' pc)
     = ((draftExample ''acidTest'' pc)(''try_count'' \<mapsto> ''32''),
        Inr (Single SingleMachineBatchSystem_badWorker))"
  by (simp add: loadTheBatchSystem_def batchSystemConstructionFn_table knownBackend_def
      afterConstruction_def alwaysBuilds_def draftExample_def)

text \<open>
  A run with the example options in the empty world, for a configuration that can be
  written: the job tree is created with the configuration and the first job.
\<close>

lemma create_run_example:
  assumes l: "loadTheBatchSystem alwaysBuilds maxint64 (draftExample bs pc) = (config1, Inr b)"
    and wr: "writable (config1(''rescue_jobs_frequency'' \<mapsto> ''120.0''))"
    and jt: "config1 ''job_tree'' = Some ''/jt''"
    and fj: "firstJob examplePlatform ''echo hi''
               (config1(''rescue_jobs_frequency'' \<mapsto> ''120.0'')) None None = Inr job"
  shows "runJobTreeScript examplePlatform (exampleOptions bs pc) emptyWorld
           = (createdWorld (config1(''rescue_jobs_frequency'' \<mapsto> ''120.0'')) job,
              Inr (config1(''rescue_jobs_frequency'' \<mapsto> ''120.0''), b))"
proof -
  let ?P = "examplePlatform"
  let ?o = "exampleOptions bs pc"
  let ?c = "config1(''rescue_jobs_frequency'' \<mapsto> ''120.0'')"
  let ?w1 = "emptyWorld\<lparr>files := [''/jt'' \<mapsto> Dir]\<rparr>"
  let ?w2 = "emptyWorld\<lparr>files := [''/jt'' \<mapsto> Dir, ''/jt/jobs'' \<mapsto> Dir]\<rparr>"
  let ?w3 = "emptyWorld\<lparr>files := [''/jt'' \<mapsto> Dir, ''/jt/jobs'' \<mapsto> Dir,
               ''/jt/config.xml'' \<mapsto> File (Bytes (fst (xml_write ?c)))]\<rparr>"
  let ?w4 = "?w3\<lparr>jobRecords := [job]\<rparr>"
  have jt': "?c ''job_tree'' = Some ''/jt''"
    using jt by simp
  have s: "setLoggingFromOptions ?o emptyWorld = emptyWorld"
    by (simp add: setLoggingFromOptions_def exampleOptions_def defaultOptions_def)
  have m1: "mkdir (abspath ?P ''/jt'') emptyWorld = Inr ?w1"
    by (simp add: mkdir_def parent_exists_def dirname_def examplePlatform_def emptyWorld_def)
  have m2: "mkdir (getJobFileDirName ?P (abspath ?P ''/jt'')) ?w1 = Inr ?w2"
    by (simp add: mkdir_def parent_exists_def dirname_def isdir_def examplePlatform_def
        emptyWorld_def)
  have d: "draftConfig ?o (abspath ?P ''/jt'') (loggingLevel ?w2) = Inr (draftExample bs pc)"
    using draftConfig_example [of bs pc] by (simp add: examplePlatform_def emptyWorld_def)
  have l': "loadTheBatchSystem (construct ?P) (sys_maxint ?P) (draftExample bs pc)
              = (config1, Inr b)"
    using l by (simp add: examplePlatform_def)
  have nd: "openable ?w2 (getConfigFileName ?P ''/jt'')"
    by (simp add: openable_def parent_exists_def dirname_def isdir_def examplePlatform_def
        emptyWorld_def)
  have e: "?w2\<lparr>files := (files ?w2)(getConfigFileName ?P ''/jt''
               \<mapsto> File (Bytes (fst (xml_write ?c))))\<rparr> = ?w3"
    by (simp add: examplePlatform_def emptyWorld_def)
  have w: "writeConfig ?P ?c ?w2 = (?w3, Inr ())"
    using writeConfig_writable [OF wr jt' nd] by (simp only: e)
  have "createJobTree ?P ?o ''/jt'' emptyWorld = (?w3, Inr (?c, b))"
    by (rule createJobTree_run [OF m1 m2 d l' rescueFrequency_example w])
  then have cr: "createJobTree ?P ?o ''/jt'' (setLoggingFromOptions ?o emptyWorld)
              = (?w3, Inr (?c, b))"
    by (simp only: s)
  have cf: "createFirstJob ?P ''echo hi'' ?c None None ?w3 = (?w4, Inr ())"
    by (simp add: createFirstJob_def fj emptyWorld_def)
  have le: "loadEnvironment ?P ?c ?w4 = (createdWorld ?c job, Inr ())"
    using jt by (simp add: loadEnvironment_def open_w_def openable_def parent_exists_def
        dirname_def isdir_def put_def examplePlatform_def emptyWorld_def createdWorld_def)
  show ?thesis
    by (rule run_create [OF _ _ _ cr cf le])
       (simp_all add: exampleOptions_def defaultOptions_def isdir_def emptyWorld_def)
qed

lemma py_split_parasol: "py_split ''parasol'' = [''parasol'']"
  by (simp add: py_split_def isspace_def)

lemma writable_draftExample:
  assumes "list_all writable_char bs" and "list_all writable_char pc"
  shows "writable (draftExample bs pc)"
proof -
  have "attrib_name k \<and> list_all writable_char v" if "draftExample bs pc k = Some v" for k v
  proof -
    from that have "(k, v) \<in> {(''log_level'', ''INFO''), (''job_tree'', ''/jt''),
        (''parasol_command'', pc), (''try_count'', ''4''),
        (''max_job_duration'', ''9.22337203685e+18''), (''batch_system'', bs),
        (''job_time'', ''30.0''), (''max_log_file_size'', ''50120''),
        (''default_memory'', ''1073741824''), (''default_cpu'', ''2''),
        (''max_jobs'', ''9223372036854775807''), (''max_threads'', ''4'')}"
      by (simp add: draftExample_def split: if_splits)
    then show ?thesis
      using assms attrib_name_keys attrib_name_log_level
      by (auto simp: writable_char_def)
  qed
  moreover have "finite (dom (draftExample bs pc))"
    by (simp add: draftExample_def)
  ultimately show ?thesis
    unfolding writable_iff by blast
qed

lemma writable_numbers: "list_all writable_char ''120.0''" "list_all writable_char ''32''"
  by (simp_all add: writable_char_def)

lemma first_job_example:
  assumes "config ''default_memory'' = Some ''1073741824''"
    and "config ''default_cpu'' = Some ''2''"
    and "config ''try_count'' = Some t" and "py_int t = Inr n"
    and "config ''job_tree'' = Some ''/jt''"
  shows "firstJob examplePlatform ''echo hi'' config None None
           = Inr (Job ''echo hi'' (PFloat (Finite False 1073741824)) (PFloat (Finite False 2)) n
                ''/jt/jobs'')"
  by (simp add: firstJob_def bind_def configFloat_def configInt_def assms py_float_1073741824
      py_float_2 examplePlatform_def)

text \<open>The run with the backend \<open>singleMachine\<close>.\<close>

lemma run_singleMachine:
  assumes "list_all writable_char pc"
  shows "runJobTreeScript examplePlatform (exampleOptions ''singleMachine'' pc) emptyWorld
           = (createdWorld (createdConfig ''singleMachine'' pc)
                (Job ''echo hi'' (PFloat (Finite False 1073741824)) (PFloat (Finite False 2)) 4
                   ''/jt/jobs''),
              Inr (createdConfig ''singleMachine'' pc, Single SingleMachineBatchSystem))"
  unfolding createdConfig_def
proof (rule create_run_example [OF load_singleMachine])
  have "writable (draftExample ''singleMachine'' pc)"
    by (rule writable_draftExample [OF _ assms]) (simp add: writable_char_def)
  then show "writable ((draftExample ''singleMachine'' pc)(''rescue_jobs_frequency'' \<mapsto> ''120.0''))"
    by (rule writable_update) (simp_all add: attrib_name_keys writable_char_def)
  show "draftExample ''singleMachine'' pc ''job_tree'' = Some ''/jt''"
    by (simp add: draftExample_def)
  show "firstJob examplePlatform ''echo hi''
          ((draftExample ''singleMachine'' pc)(''rescue_jobs_frequency'' \<mapsto> ''120.0''))
          None None
        = Inr (Job ''echo hi'' (PFloat (Finite False 1073741824)) (PFloat (Finite False 2)) 4
                ''/jt/jobs'')"
    by (rule first_job_example [OF _ _ _ py_int_4]) (simp_all add: draftExample_def)
qed

text \<open>The run with the backend \<open>acidTest\<close>.\<close>

lemma run_acidTest:
  "runJobTreeScript examplePlatform (exampleOptions ''acidTest'' ''parasol'') emptyWorld
     = (createdWorld
          ((draftExample ''acidTest'' ''parasol'')
             (''try_count'' \<mapsto> ''32'', ''rescue_jobs_frequency'' \<mapsto> ''120.0''))
          (Job ''echo hi'' (PFloat (Finite False 1073741824)) (PFloat (Finite False 2)) 32
             ''/jt/jobs''),
        Inr ((draftExample ''acidTest'' ''parasol'')
               (''try_count'' \<mapsto> ''32'', ''rescue_jobs_frequency'' \<mapsto> ''120.0''),
             Single SingleMachineBatchSystem_badWorker))"
proof (rule create_run_example [OF load_acidTest])
  have "writable (draftExample ''acidTest'' ''parasol'')"
    by (rule writable_draftExample) (simp_all add: writable_char_def)
  then have "writable ((draftExample ''acidTest'' ''parasol'')(''try_count'' \<mapsto> ''32''))"
    by (rule writable_update) (simp_all add: attrib_name_keys writable_char_def)
  then show "writable ((draftExample ''acidTest'' ''parasol'')
             (''try_count'' \<mapsto> ''32'', ''rescue_jobs_frequency'' \<mapsto> ''120.0''))"
    by (rule writable_update) (simp_all add: attrib_name_keys writable_char_def)
  show "((draftExample ''acidTest'' ''parasol'')(''try_count'' \<mapsto> ''32'')) ''job_tree''
          = Some ''/jt''"
    by (simp add: draftExample_def)
  show "firstJob examplePlatform ''echo hi''
          ((draftExample ''acidTest'' ''parasol'')
             (''try_count'' \<mapsto> ''32'', ''rescue_jobs_frequency'' \<mapsto> ''120.0''))
          None None
        = Inr (Job ''echo hi'' (PFloat (Finite False 1073741824)) (PFloat (Finite False 2)) 32
                ''/jt/jobs'')"
    by (rule first_job_example [OF _ _ _ py_int_32]) (simp_all add: draftExample_def)
qed

lemma not_acid_singleMachine: "\<not> usesAcidTest ''singleMachine''"
  by (simp add: usesAcidTest_def knownBackend_def py_split_single)

text \<open>
  The theorem at a run in the empty world whose options ask for three retries, a default
  memory of 1 GiB and two cpus by default: the configuration holds \<open>1073741824\<close> and \<open>2\<close>,
  and the root job has the memory \<open>1073741824.0\<close>, \<open>2.0\<close> cpus and the try count \<open>3 + 1\<close>.
\<close>

theorem first_job_defaults_witness:
  "opt_retryCount (exampleOptions ''singleMachine'' ''parasol'') = VNum (PInt 3)
   \<and> opt_defaultMemory (exampleOptions ''singleMachine'' ''parasol'') = VStr ''1073741824''
   \<and> opt_defaultCpu (exampleOptions ''singleMachine'' ''parasol'') = VNum (PInt 2)
   \<and> map_option (\<lambda>(config, b). (config ''default_memory'', config ''default_cpu''))
        (returned (runJobTreeScript examplePlatform (exampleOptions ''singleMachine'' ''parasol'')
           emptyWorld))
     = Some (Some ''1073741824'', Some ''2'')
   \<and> map (\<lambda>job. (jobMemory job, jobCpu job, jobTryCount job))
        (jobRecords (fst (runJobTreeScript examplePlatform
           (exampleOptions ''singleMachine'' ''parasol'') emptyWorld)))
     = [(PFloat (Finite False 1073741824), PFloat (Finite False 2), 4)]"
proof -
  let ?o = "exampleOptions ''singleMachine'' ''parasol''"
  let ?c = "createdConfig ''singleMachine'' ''parasol''"
  let ?w = "fst (runJobTreeScript examplePlatform ?o emptyWorld)"
  have "list_all writable_char ''parasol''"
    by (simp add: writable_char_def)
  from run_singleMachine [OF this]
  have r: "runJobTreeScript examplePlatform ?o emptyWorld
             = (?w, Inr (?c, Single SingleMachineBatchSystem))"
    by simp
  have p: "opt_jobTree ?o = Some ''/jt''"
    by (simp add: exampleOptions_def defaultOptions_def)
  have d: "\<not> isdir emptyWorld ''/jt''"
    by (simp add: isdir_def emptyWorld_def)
  have o: "opt_retryCount ?o = VNum (PInt 3)" "opt_defaultMemory ?o = VStr ''1073741824''"
    "opt_defaultCpu ?o = VNum (PInt 2)" "opt_batchSystem ?o = ''singleMachine''"
    by (simp_all add: exampleOptions_def defaultOptions_def)
  from first_job_defaults [OF p d r] obtain job retry memory cpu m c t where
    j: "jobRecords ?w = jobRecords emptyWorld @ [job]"
    and dm: "py_int_of (opt_defaultMemory ?o) = Inr memory"
    and cm: "?c ''default_memory'' = Some (py_str memory)"
    and fm: "py_float (py_str memory) = Inr m" and jm: "jobMemory job = PFloat m"
    and dc: "py_int_of (opt_defaultCpu ?o) = Inr cpu"
    and cc: "?c ''default_cpu'' = Some (py_str cpu)"
    and fc: "py_float (py_str cpu) = Inr c" and jc: "jobCpu job = PFloat c"
    and rt: "py_int_of (opt_retryCount ?o) = Inr retry"
    and tc: "jobTryCount job = (if usesAcidTest (opt_batchSystem ?o) then 32 else retry + 1)"
    by blast
  from rt have "retry = 3"
    by (simp add: o py_int_of_def)
  with tc have 1: "jobTryCount job = 4"
    by (simp add: o not_acid_singleMachine)
  from dm have memory: "memory = 1073741824"
    by (simp add: o py_int_of_def py_int_1073741824)
  from dc have cpu: "cpu = 2"
    by (simp add: o py_int_of_def)
  from fm jm have 2: "jobMemory job = PFloat (Finite False 1073741824)"
    by (simp add: memory py_str_examples py_float_1073741824)
  from fc jc have 3: "jobCpu job = PFloat (Finite False 2)"
    by (simp add: cpu py_str_examples py_float_2)
  from j have 4: "jobRecords ?w = [job]"
    by (simp add: emptyWorld_def)
  from cm cc have 5: "?c ''default_memory'' = Some ''1073741824''" "?c ''default_cpu'' = Some ''2''"
    by (simp_all add: memory cpu py_str_examples)
  have 6: "map_option (\<lambda>(config, b). (config ''default_memory'', config ''default_cpu''))
        (returned (runJobTreeScript examplePlatform ?o emptyWorld))
     = Some (Some ''1073741824'', Some ''2'')"
    by (subst r) (simp add: returned_def 5)
  have 7: "map (\<lambda>job. (jobMemory job, jobCpu job, jobTryCount job)) (jobRecords ?w)
     = [(PFloat (Finite False 1073741824), PFloat (Finite False 2), 4)]"
    by (simp add: 4 1 2 3)
  from o 6 7 show ?thesis
    by (intro conjI)
qed

text \<open>
  C8 as stated fails for the backend \<open>acidTest\<close>: the options ask for a retry count of 3,
  and the root job is written with a try count of 32, not 4.
\<close>

theorem acid_test_try_count_counterexample:
  "opt_retryCount (exampleOptions ''acidTest'' ''parasol'') = VNum (PInt 3)
   \<and> returned (runJobTreeScript examplePlatform (exampleOptions ''acidTest'' ''parasol'')
        emptyWorld) \<noteq> None
   \<and> map jobTryCount (jobRecords (fst (runJobTreeScript examplePlatform
        (exampleOptions ''acidTest'' ''parasol'') emptyWorld)))
     = [32]"
proof -
  have "opt_retryCount (exampleOptions ''acidTest'' ''parasol'') = VNum (PInt 3)"
    by (simp add: exampleOptions_def defaultOptions_def)
  then show ?thesis
    by (simp add: run_acidTest returned_def createdWorld_def)
qed

section \<open>The world after a run has created a job tree\<close>






lemma openable_setLogging [simp]:
  "openable (setLoggingFromOptions opts w) p = openable w p"
  by (simp add: openable_def parent_exists_def)


section \<open>Reloading a job tree\<close>




section \<open>Creating and reloading at the example inputs\<close>




lemma run_returned:
  "returned (runJobTreeScript P opts w) = Some (config, b) \<Longrightarrow>
   runJobTreeScript P opts w = (fst (runJobTreeScript P opts w), Inr (config, b))"
  by (cases "runJobTreeScript P opts w") (auto simp: returned_def split: sum.splits)






end
